theory Spec2Isabelle
  imports Complex_Main "HOL-Library.AList"
begin

section \<open>Data model\<close>

text \<open>
  The client is JavaScript (\<^verbatim>\<open>src/index.js\<close> and the later revision
  \<^verbatim>\<open>src/unnamed/part_002\<close>). Values that the code only passes through
  (request bodies, header values, amounts) are JavaScript values; a finite JavaScript number
  is a rational, and arithmetic on numbers is left to the platform because it rounds.
\<close>

datatype jsval =
    Undefined
  | Null
  | Bool bool
  | Num rat
  | Str string
  | Obj "(string \<times> jsval) list"

type_synonym js_object = "(string \<times> jsval) list"

text \<open>An order as the exchange reports it: the code reads \<^verbatim>\<open>id\<close> and
  \<^verbatim>\<open>state\<close>; the id is kept as it renders inside a path.\<close>

record order =
  order_id :: string
  state :: string
  details :: js_object

text \<open>\<^verbatim>\<open>orders.meta\<close>: a property that is absent reads as \<^verbatim>\<open>undefined\<close>
  (\<open>None\<close>). \<^verbatim>\<open>_getOrderPages\<close> replaces the object by
  \<^verbatim>\<open>{total_count: n}\<close>, which has no page numbers.\<close>

record page_meta =
  current_page :: "nat option"
  total_pages :: "nat option"
  total_count :: "nat option"

record listing =
  orders :: "order list"
  meta :: page_meta

text \<open>The uniform result object (\<^verbatim>\<open>err.json\<close>, \<^verbatim>\<open>response.json\<close>):
  the success flag, the error kind and the parsed body. For an order endpoint the payload is
  \<^verbatim>\<open>json.order\<close>, for the listing endpoint it holds \<^verbatim>\<open>json.orders\<close>
  and \<^verbatim>\<open>json.meta\<close>.\<close>

record 'a envelope =
  success :: bool
  error_type :: "string option"
  payload :: 'a

text \<open>What a callback receives: \<^verbatim>\<open>callback(error, null)\<close>,
  \<^verbatim>\<open>callback(null, result)\<close>, or no call at all because an exception was thrown.\<close>

datatype ('e, 'a) outcome =
    CallbackError 'e
  | CallbackResult 'a
  | Thrown string

subsection \<open>Transport\<close>

datatype http_verb = Get | Post | Put

record http_request =
  verb :: http_verb
  url :: string
  req_headers :: js_object
  req_body :: "jsval option"

text \<open>\<^verbatim>\<open>error.response.error\<close> of a failed round trip.\<close>

record server_error =
  declared_kind :: "string option"
  detail :: jsval

text \<open>What superagent hands to \<^verbatim>\<open>.end(function (error, response))\<close>: an error
  without a response object (the connection failed), an error with the server's response, or
  a response with its parsed body.\<close>

datatype 'a reply = NoResponse | HttpError server_error | HttpOk 'a

datatype event = Sent http_request | Timeout nat

text \<open>
  Everything outside the process: the clock behind \<^verbatim>\<open>new Date().getTime()\<close>
  (its k-th reading), the exchange (its answer to the k-th request, typed by endpoint), and
  the trace of what the client did: requests sent and timers awaited, in order.
\<close>

record world =
  clock :: "nat \<Rightarrow> int"
  clock_reads :: nat
  json_endpoint :: "nat \<Rightarrow> http_request \<Rightarrow> jsval reply"
  order_endpoint :: "nat \<Rightarrow> http_request \<Rightarrow> order reply"
  listing_endpoint :: "nat \<Rightarrow> http_request \<Rightarrow> listing reply"
  events :: "event list"

subsection \<open>Required modules\<close>

record bank =
  b_name :: string
  b_id :: jsval

text \<open>
  The modules the client requires and does not define: \<^verbatim>\<open>url\<close>,
  \<^verbatim>\<open>JSON\<close>, \<^verbatim>\<open>Buffer\<close>, \<^verbatim>\<open>crypto\<close>,
  \<^verbatim>\<open>lodash\<close>, \<^verbatim>\<open>bitcoin-address\<close>, \<^verbatim>\<open>bitcoin-math\<close>,
  floating-point multiplication, and the bank table of \<^verbatim>\<open>./lib/banks\<close>.
\<close>

record modules =
  url_parse_path :: "string \<Rightarrow> string"
  json_stringify :: "jsval \<Rightarrow> string"
  base64 :: "string \<Rightarrow> string"
  hmac_sha384_hex :: "string \<Rightarrow> string \<Rightarrow> string"
  capitalize :: "string \<Rightarrow> string"
  lowerCase :: "string \<Rightarrow> string"
  toUpper :: "string \<Rightarrow> string"
  validate :: "string \<Rightarrow> string \<Rightarrow> bool"
  toSatoshi :: "rat \<Rightarrow> rat"
  multiply :: "rat \<Rightarrow> rat \<Rightarrow> rat"
  colombiaBanks :: "bank list"

subsection \<open>The client\<close>

record client =
  api :: string
  key :: string
  secret :: string
  params :: js_object
  headers :: js_object

section \<open>Strings\<close>

text \<open>A non-negative integer as JavaScript concatenates it into a string.\<close>

function string_of_nat :: "nat \<Rightarrow> string" where
  "string_of_nat n =
     (if n < 10 then [''0123456789'' ! n]
      else string_of_nat (n div 10) @ [''0123456789'' ! (n mod 10)])"
  by pat_completeness auto
termination
  by (relation "measure (\<lambda>n. n)") auto

declare string_of_nat.simps [simp del]

definition string_of_int :: "int \<Rightarrow> string" where
  "string_of_int i = (if i < 0 then ''-'' @ string_of_nat (nat (- i)) else string_of_nat (nat i))"

text \<open>\<^verbatim>\<open>String.prototype.indexOf\<close>: the first position at which the needle
  occurs, or -1.\<close>

fun index_from :: "string \<Rightarrow> string \<Rightarrow> nat \<Rightarrow> int" where
  "index_from needle [] i = (if needle = [] then int i else - 1)"
| "index_from needle (x # xs) i =
     (if take (length needle) (x # xs) = needle then int i
      else index_from needle xs (Suc i))"

definition indexOf :: "string \<Rightarrow> string \<Rightarrow> int" where
  "indexOf s needle = index_from needle s 0"

section \<open>Signing (\<^verbatim>\<open>_getFullUrl\<close>, \<^verbatim>\<open>_getHmac\<close>, \<^verbatim>\<open>_getAuthHeaders\<close>)\<close>

text \<open>These three functions are the same in both revisions of the client. A synchronous call
  either returns a value or throws.\<close>

datatype 'a completion = Returned 'a | Threw string

definition getFullUrl :: "client \<Rightarrow> string \<Rightarrow> string" where
  "getFullUrl c path = api c @ path"

text \<open>The two concatenations that \<^verbatim>\<open>_getHmac\<close> assigns to \<^verbatim>\<open>message\<close>.\<close>

definition message_without_body :: "modules \<Rightarrow> client \<Rightarrow> string \<Rightarrow> int \<Rightarrow> string" where
  "message_without_body M c path timestamp =
     (let fullPath = url_parse_path M (getFullUrl c path) in
      ''GET'' @ '' '' @ fullPath @ '' '' @ string_of_int timestamp)"

definition message_with_body ::
  "modules \<Rightarrow> client \<Rightarrow> string \<Rightarrow> string \<Rightarrow> jsval \<Rightarrow> int \<Rightarrow> string" where
  "message_with_body M c meth path data timestamp =
     (let fullPath = url_parse_path M (getFullUrl c path);
          encodedData = base64 M (json_stringify M data)
      in meth @ '' '' @ fullPath @ '' '' @ encodedData @ '' '' @ string_of_int timestamp)"

text \<open>The value of \<^verbatim>\<open>message\<close> when \<^verbatim>\<open>_getHmac\<close> reaches the hash;
  \<open>None\<close> when it logs that the verb is not implemented and returns
  \<^verbatim>\<open>undefined\<close>. When the data argument is \<^verbatim>\<open>undefined\<close>,
  \<^verbatim>\<open>JSON.stringify\<close> yields \<^verbatim>\<open>undefined\<close> and \<^verbatim>\<open>new Buffer\<close>
  throws on it.\<close>

definition signed_message ::
  "modules \<Rightarrow> client \<Rightarrow> int \<Rightarrow> string \<Rightarrow> string \<Rightarrow> jsval \<Rightarrow> string option completion" where
  "signed_message M c timestamp meth path data =
     (if meth = ''GET'' then Returned (Some (message_without_body M c path timestamp))
      else if meth = ''POST'' \<or> meth = ''PUT'' then
        (if data = Undefined then Threw ''TypeError''
         else Returned (Some (message_with_body M c meth path data timestamp)))
      else Returned None)"

definition getHmac ::
  "modules \<Rightarrow> client \<Rightarrow> int \<Rightarrow> string \<Rightarrow> string \<Rightarrow> jsval \<Rightarrow> string option completion" where
  "getHmac M c timestamp meth path data =
     (case signed_message M c timestamp meth path data of
        Threw x \<Rightarrow> Threw x
      | Returned message \<Rightarrow> Returned (map_option (hmac_sha384_hex M (secret c)) message))"

definition signature_value :: "string option \<Rightarrow> jsval" where
  "signature_value h = (case h of None \<Rightarrow> Undefined | Some s \<Rightarrow> Str s)"

text \<open>The object \<^verbatim>\<open>_getAuthHeaders\<close> returns: the three authentication properties,
  with every property of \<^verbatim>\<open>this.headers\<close> assigned over them.\<close>

definition merged_headers :: "client \<Rightarrow> int \<Rightarrow> string option \<Rightarrow> js_object" where
  "merged_headers c timestamp h =
     (let authHeaders =
            [(''X-SBTC-APIKEY'', Str (key c)),
             (''X-SBTC-NONCE'', Num (of_int timestamp)),
             (''X-SBTC-SIGNATURE'', signature_value h)]
      in fold (\<lambda>(attrname, v). AList.update attrname v) (headers c) authHeaders)"

text \<open>One reading of the clock, then the signature for that reading.\<close>

definition getAuthHeaders ::
  "modules \<Rightarrow> client \<Rightarrow> string \<Rightarrow> string \<Rightarrow> jsval \<Rightarrow> world \<Rightarrow> js_object completion \<times> world" where
  "getAuthHeaders M c meth path data w =
     (let timestamp = clock w (clock_reads w);
          w' = w\<lparr>clock_reads := Suc (clock_reads w)\<rparr>
      in case getHmac M c timestamp meth path data of
           Threw x \<Rightarrow> (Threw x, w')
         | Returned h \<Rightarrow> (Returned (merged_headers c timestamp h), w'))"

section \<open>The response handler\<close>

text \<open>Modelled from the spec: \<^verbatim>\<open>./lib/response_handler\<close> is required by the client
  and is not among the sources. A local precondition failure is "a fixed error kind" in a
  failure envelope with no data.\<close>

definition responseHandler_invalidRequest :: "string \<Rightarrow> jsval envelope" where
  "responseHandler_invalidRequest kind =
     \<lparr>success = False, error_type = Some kind, payload = Null\<rparr>"

text \<open>Modelled from the spec: on a transport failure the handler is to "mark failure, extract
  whatever structured error body the server returned (if any), tag with the server-declared
  error kind".\<close>

definition responseHandler_errorSet :: "server_error \<Rightarrow> jsval envelope" where
  "responseHandler_errorSet e =
     \<lparr>success = False, error_type = declared_kind e, payload = detail e\<rparr>"

text \<open>Modelled from the spec: on transport success the handler is to "mark success and pass
  the parsed JSON body through unchanged".\<close>

definition responseHandler_success :: "'a \<Rightarrow> 'a envelope" where
  "responseHandler_success b = \<lparr>success = True, error_type = None, payload = b\<rparr>"

section \<open>Sending a request\<close>

definition requests :: "world \<Rightarrow> http_request list" where
  "requests w = concat (map (\<lambda>e. case e of Sent r \<Rightarrow> [r] | Timeout d \<Rightarrow> []) (events w))"

definition send_json :: "http_request \<Rightarrow> world \<Rightarrow> jsval reply \<times> world" where
  "send_json r w =
     (json_endpoint w (length (requests w)) r, w\<lparr>events := events w @ [Sent r]\<rparr>)"

definition send_order :: "http_request \<Rightarrow> world \<Rightarrow> order reply \<times> world" where
  "send_order r w =
     (order_endpoint w (length (requests w)) r, w\<lparr>events := events w @ [Sent r]\<rparr>)"

definition send_listing :: "http_request \<Rightarrow> world \<Rightarrow> listing reply \<times> world" where
  "send_listing r w =
     (listing_endpoint w (length (requests w)) r, w\<lparr>events := events w @ [Sent r]\<rparr>)"

definition setTimeout :: "nat \<Rightarrow> world \<Rightarrow> world" where
  "setTimeout ms w = w\<lparr>events := events w @ [Timeout ms]\<rparr>"

text \<open>The function every facade operation but \<^verbatim>\<open>cancelOrderId\<close> passes to
  \<^verbatim>\<open>.end\<close>. Reading \<^verbatim>\<open>error.response.error\<close> of an error that has no
  response throws.\<close>

definition end_handler :: "'a reply \<Rightarrow> (jsval envelope, 'a envelope) outcome" where
  "end_handler rp =
     (case rp of
        NoResponse \<Rightarrow> Thrown ''TypeError''
      | HttpError e \<Rightarrow> CallbackError (responseHandler_errorSet e)
      | HttpOk b \<Rightarrow> CallbackResult (responseHandler_success b))"

definition apiKeyRequired :: "jsval envelope" where
  "apiKeyRequired = responseHandler_invalidRequest ''InvalidRequest:ApiKeyRequired''"

section \<open>Facade operations of \<^verbatim>\<open>src/index.js\<close>\<close>

definition getBalances ::
  "modules \<Rightarrow> client \<Rightarrow> string \<Rightarrow> world \<Rightarrow> (jsval envelope, jsval envelope) outcome \<times> world" where
  "getBalances M c currency w =
     (let path = ''/balances/'' @ currency in
      if secret c = '''' then (CallbackError apiKeyRequired, w)
      else
        (case getAuthHeaders M c ''GET'' path Undefined w of
               (Threw x, w1) \<Rightarrow> (Thrown x, w1)
             | (Returned hs, w1) \<Rightarrow>
                 (let (rp, w2) = send_json
                        \<lparr>verb = Get, url = getFullUrl c path, req_headers = hs, req_body = None\<rparr> w1
                  in (end_handler rp, w2))))"

text \<open>The third argument of \<^verbatim>\<open>getExchangeFee\<close>: falsy, a truthy flag, or the
  callback itself when the caller passes three arguments (then the fourth parameter,
  \<^verbatim>\<open>callback\<close>, is \<^verbatim>\<open>undefined\<close> until the function reassigns it).\<close>

datatype market_order_arg = MarketOrderFalsy | MarketOrderTruthy | MarketOrderIsCallback

definition getExchangeFee ::
  "modules \<Rightarrow> client \<Rightarrow> string \<Rightarrow> string \<Rightarrow> market_order_arg \<Rightarrow> world
     \<Rightarrow> (jsval envelope, jsval envelope) outcome \<times> world" where
  "getExchangeFee M c marketId type marketOrder w =
     (let path = ''/markets/'' @ marketId @ ''/fee_percentage?type='' @ capitalize M type in
      if secret c = '''' then
        (if marketOrder = MarketOrderIsCallback then (Thrown ''TypeError'', w)
         else (CallbackError apiKeyRequired, w))
      else
        (let path = (if marketOrder = MarketOrderTruthy then path @ ''&market_order=true''
                     else path)
             in case getAuthHeaders M c ''GET'' path Undefined w of
               (Threw x, w1) \<Rightarrow> (Thrown x, w1)
             | (Returned hs, w1) \<Rightarrow>
                 (let (rp, w2) = send_json
                        \<lparr>verb = Get, url = getFullUrl c path, req_headers = hs, req_body = None\<rparr> w1
                  in (end_handler rp, w2))))"

definition quotation ::
  "modules \<Rightarrow> client \<Rightarrow> string \<Rightarrow> string \<Rightarrow> bool \<Rightarrow> jsval \<Rightarrow> world
     \<Rightarrow> (jsval envelope, jsval envelope) outcome \<times> world" where
  "quotation M c marketId type reverse amount w =
     (let path = ''/markets/'' @ marketId @ ''/quotations'' in
      if secret c = '''' then (CallbackError apiKeyRequired, w)
      else
        (let data = Obj [(''quotation'',
                      Obj [(''type'', Str (lowerCase M type)),
                           (''reverse'', Bool reverse),
                           (''amount'', amount)])]
             in case getAuthHeaders M c ''POST'' path data w of
               (Threw x, w1) \<Rightarrow> (Thrown x, w1)
             | (Returned hs, w1) \<Rightarrow>
                 (let (rp, w2) = send_json
                        \<lparr>verb = Post, url = getFullUrl c path, req_headers = hs, req_body = Some data\<rparr> w1
                  in (end_handler rp, w2))))"

text \<open>\<^verbatim>\<open>getQuotation\<close> and \<^verbatim>\<open>getReverseQuotation\<close> differ in the
  \<^verbatim>\<open>reverse\<close> flag of the body only.\<close>

definition getQuotation ::
  "modules \<Rightarrow> client \<Rightarrow> string \<Rightarrow> string \<Rightarrow> jsval \<Rightarrow> world
     \<Rightarrow> (jsval envelope, jsval envelope) outcome \<times> world" where
  "getQuotation M c marketId type amount w = quotation M c marketId type False amount w"

definition getReverseQuotation ::
  "modules \<Rightarrow> client \<Rightarrow> string \<Rightarrow> string \<Rightarrow> jsval \<Rightarrow> world
     \<Rightarrow> (jsval envelope, jsval envelope) outcome \<times> world" where
  "getReverseQuotation M c marketId type amount w = quotation M c marketId type True amount w"

definition createOrder ::
  "modules \<Rightarrow> client \<Rightarrow> string \<Rightarrow> jsval \<Rightarrow> world
     \<Rightarrow> (jsval envelope, order envelope) outcome \<times> world" where
  "createOrder M c marketId ord w =
     (let path = ''/markets/'' @ marketId @ ''/orders'' in
      if secret c = '''' then (CallbackError apiKeyRequired, w)
      else
        (case getAuthHeaders M c ''POST'' path ord w of
               (Threw x, w1) \<Rightarrow> (Thrown x, w1)
             | (Returned hs, w1) \<Rightarrow>
                 (let (rp, w2) = send_order
                        \<lparr>verb = Post, url = getFullUrl c path, req_headers = hs, req_body = Some ord\<rparr> w1
                  in (end_handler rp, w2))))"

definition getOrdersRaw ::
  "modules \<Rightarrow> client \<Rightarrow> string \<Rightarrow> nat \<Rightarrow> world
     \<Rightarrow> (jsval envelope, listing envelope) outcome \<times> world" where
  "getOrdersRaw M c marketId page w =
     (let path = ''/markets/'' @ marketId @ ''/orders'' in
      if secret c = '''' then (CallbackError apiKeyRequired, w)
      else
        (let path = (if page \<noteq> 0 then path @ ''?page='' @ string_of_nat page else path)
             in case getAuthHeaders M c ''GET'' path Undefined w of
               (Threw x, w1) \<Rightarrow> (Thrown x, w1)
             | (Returned hs, w1) \<Rightarrow>
                 (let (rp, w2) = send_listing
                        \<lparr>verb = Get, url = getFullUrl c path, req_headers = hs, req_body = None\<rparr> w1
                  in (end_handler rp, w2))))"

definition getOrderId ::
  "modules \<Rightarrow> client \<Rightarrow> string \<Rightarrow> world
     \<Rightarrow> (jsval envelope, order envelope) outcome \<times> world" where
  "getOrderId M c orderId w =
     (let path = ''/orders/'' @ orderId in
      if secret c = '''' then (CallbackError apiKeyRequired, w)
      else
        (case getAuthHeaders M c ''GET'' path Undefined w of
               (Threw x, w1) \<Rightarrow> (Thrown x, w1)
             | (Returned hs, w1) \<Rightarrow>
                 (let (rp, w2) = send_order
                        \<lparr>verb = Get, url = getFullUrl c path, req_headers = hs, req_body = None\<rparr> w1
                  in (end_handler rp, w2))))"

text \<open>The error channel of \<^verbatim>\<open>cancelOrderId\<close> carries either
  \<^verbatim>\<open>error.json\<close> or the order's own \<^verbatim>\<open>response.json\<close>.\<close>

datatype cancel_failure = ErrorJson "jsval envelope" | ResponseJson "order envelope"

definition cancel_end_handler :: "order reply \<Rightarrow> (cancel_failure, order envelope) outcome" where
  "cancel_end_handler rp =
     (case rp of
        NoResponse \<Rightarrow> Thrown ''TypeError''
      | HttpError e \<Rightarrow> CallbackError (ErrorJson (responseHandler_errorSet e))
      | HttpOk b \<Rightarrow>
          (let json = responseHandler_success b in
           if state (payload json) \<noteq> ''canceling'' \<and> state (payload json) \<noteq> ''canceled'' then
             CallbackError (ResponseJson
               (json\<lparr>success := False, error_type := Some ''order_not_valid_for_canceling''\<rparr>))
           else CallbackResult json))"

text \<open>\<^verbatim>\<open>src/index.js\<close>: the request is a PUT with a body, the headers are built
  for \<^verbatim>\<open>'GET'\<close> and no data.\<close>

definition cancelOrderId ::
  "modules \<Rightarrow> client \<Rightarrow> string \<Rightarrow> world \<Rightarrow> (cancel_failure, order envelope) outcome \<times> world" where
  "cancelOrderId M c orderId w =
     (let path = ''/orders/'' @ orderId in
      if secret c = '''' then (CallbackError (ErrorJson apiKeyRequired), w)
      else
        (case getAuthHeaders M c ''GET'' path Undefined w of
               (Threw x, w1) \<Rightarrow> (Thrown x, w1)
             | (Returned hs, w1) \<Rightarrow>
                 (let (rp, w2) = send_order
                        \<lparr>verb = Put, url = getFullUrl c path, req_headers = hs,
                         req_body = Some (Obj [(''state'', Str ''canceling'')])\<rparr> w1
                  in (cancel_end_handler rp, w2))))"

section \<open>The order pager (\<^verbatim>\<open>_getOrderPages\<close>, \<^verbatim>\<open>pollOrders\<close>)\<close>

text \<open>The \<^verbatim>\<open>state\<close> argument is \<^verbatim>\<open>false\<close> (\<open>None\<close>) or a string; the
  empty string is falsy as well.\<close>

definition truthy :: "string option \<Rightarrow> bool" where
  "truthy st = (case st of None \<Rightarrow> False | Some s \<Rightarrow> s \<noteq> '''')"

text \<open>\<^verbatim>\<open>page === total_pages\<close> and \<^verbatim>\<open>page < total_pages\<close>, where
  \<^verbatim>\<open>page\<close> is \<^verbatim>\<open>_.toNumber\<close> of a property that may be absent (then it is
  \<^verbatim>\<open>NaN\<close>) and \<^verbatim>\<open>total_pages\<close> may be absent: both are false unless both
  sides are numbers.\<close>

definition js_eq :: "nat option \<Rightarrow> nat option \<Rightarrow> bool" where
  "js_eq page pages = (case (page, pages) of (Some p, Some n) \<Rightarrow> p = n | _ \<Rightarrow> False)"

definition js_lt :: "nat option \<Rightarrow> nat option \<Rightarrow> bool" where
  "js_lt page pages = (case (page, pages) of (Some p, Some n) \<Rightarrow> p < n | _ \<Rightarrow> False)"

text \<open>The filter step at the head of \<^verbatim>\<open>_getOrderPages\<close>: keep the orders in the
  given state, and once the page number has reached \<^verbatim>\<open>total_pages\<close> replace
  \<^verbatim>\<open>meta\<close> by the count of what was kept.\<close>

definition filterByState :: "string option \<Rightarrow> listing envelope \<Rightarrow> listing envelope" where
  "filterByState st env =
     (if success env \<and> truthy st then
        (let kept = filter (\<lambda>ord. Some (state ord) = st) (orders (payload env));
             m = meta (payload env)
         in env\<lparr>payload :=
              \<lparr>orders = kept,
               meta = (if js_eq (current_page m) (total_pages m)
                       then \<lparr>current_page = None, total_pages = None,
                             total_count = Some (length kept)\<rparr>
                       else m)\<rparr>\<rparr>)
      else env)"

text \<open>\<^verbatim>\<open>++page\<close> under the test \<^verbatim>\<open>orders.success && page < total_pages\<close>:
  the number of the page to fetch next, if there is one.\<close>

definition next_page :: "listing envelope \<Rightarrow> nat option \<Rightarrow> nat option" where
  "next_page env page =
     (if success env \<and> js_lt page (total_pages (meta (payload env)))
      then map_option Suc page else None)"

text \<open>The body of the callback given to \<^verbatim>\<open>getOrdersRaw\<close>: append the page's orders
  and record the page number.\<close>

definition append_page :: "listing envelope \<Rightarrow> listing envelope \<Rightarrow> nat \<Rightarrow> listing envelope" where
  "append_page env response page =
     env\<lparr>payload :=
       \<lparr>orders = orders (payload env) @ orders (payload response),
        meta = (meta (payload env))\<lparr>current_page := Some page\<rparr>\<rparr>\<rparr>"

function getOrderPages ::
  "modules \<Rightarrow> client \<Rightarrow> listing envelope \<Rightarrow> string \<Rightarrow> string option \<Rightarrow> world
     \<Rightarrow> (jsval envelope, listing envelope) outcome \<times> world" where
  "getOrderPages M c env marketId st w =
     (let page = current_page (meta (payload env));
          env1 = filterByState st env
      in case next_page env1 page of
           Some page' \<Rightarrow>
             (case getOrdersRaw M c marketId page' w of
                (CallbackError e, w') \<Rightarrow> (CallbackError e, w')
              | (Thrown x, w') \<Rightarrow> (Thrown x, w')
              | (CallbackResult response, w') \<Rightarrow>
                  getOrderPages M c (append_page env1 response page') marketId st w')
         | None \<Rightarrow> (CallbackResult env1, w))"
  by pat_completeness auto
termination
proof (relation "measure (\<lambda>(M, c, env, marketId, st, w).
          case (total_pages (meta (payload env)), current_page (meta (payload env))) of
            (Some n, Some p) \<Rightarrow> n - p | _ \<Rightarrow> 0)", goal_cases)
  case 1
  show ?case by simp
next
  case (2 M c env marketId st w page env1 page' out w' response)
  then show ?case
    by (auto simp: next_page_def append_page_def filterByState_def js_lt_def js_eq_def Let_def
             split: if_splits option.splits)
qed

declare getOrderPages.simps [simp del]

definition pollOrders ::
  "modules \<Rightarrow> client \<Rightarrow> listing envelope \<Rightarrow> string \<Rightarrow> string option \<Rightarrow> world
     \<Rightarrow> (jsval envelope, listing envelope) outcome \<times> world" where
  "pollOrders M c env marketId st w = getOrderPages M c env marketId st w"

text \<open>\<^verbatim>\<open>async.waterfall\<close> of two steps: the first step's error ends the call.
  \<^verbatim>\<open>getOrders\<close> passes \<^verbatim>\<open>false\<close> as the state.\<close>

definition getOrdersByState ::
  "modules \<Rightarrow> client \<Rightarrow> string \<Rightarrow> string option \<Rightarrow> world
     \<Rightarrow> (jsval envelope, listing envelope) outcome \<times> world" where
  "getOrdersByState M c marketId st w =
     (case getOrdersRaw M c marketId 0 w of
        (CallbackError e, w') \<Rightarrow> (CallbackError e, w')
      | (Thrown x, w') \<Rightarrow> (Thrown x, w')
      | (CallbackResult env, w') \<Rightarrow> pollOrders M c env marketId st w')"

definition getOrders ::
  "modules \<Rightarrow> client \<Rightarrow> string \<Rightarrow> world
     \<Rightarrow> (jsval envelope, listing envelope) outcome \<times> world" where
  "getOrders M c marketId w =
     (case getOrdersRaw M c marketId 0 w of
        (CallbackError e, w') \<Rightarrow> (CallbackError e, w')
      | (Thrown x, w') \<Rightarrow> (Thrown x, w')
      | (CallbackResult env, w') \<Rightarrow> pollOrders M c env marketId None w')"

section \<open>The order state poller (\<^verbatim>\<open>_getOrderState\<close>, \<^verbatim>\<open>pollOrderState\<close>)\<close>

text \<open>The loop has no bound: the result is \<open>None\<close> when it never calls back.\<close>

partial_function (option) getOrderState ::
  "modules \<Rightarrow> client \<Rightarrow> order envelope \<Rightarrow> string \<Rightarrow> world
     \<Rightarrow> ((jsval envelope, order envelope) outcome \<times> world) option" where
  "getOrderState M c env status w =
     (if success env \<and> state (payload env) \<noteq> status then
        (case getOrderId M c (order_id (payload env)) w of
           (CallbackError e, w') \<Rightarrow> Some (CallbackError e, w')
         | (Thrown x, w') \<Rightarrow> Some (Thrown x, w')
         | (CallbackResult response, w') \<Rightarrow>
             getOrderState M c response status (setTimeout 500 w'))
      else Some (CallbackResult env, w))"

definition pollOrderState ::
  "modules \<Rightarrow> client \<Rightarrow> order envelope \<Rightarrow> string \<Rightarrow> world
     \<Rightarrow> ((jsval envelope, order envelope) outcome \<times> world) option" where
  "pollOrderState M c env status w = getOrderState M c env status w"

definition createAndTradeOrder ::
  "modules \<Rightarrow> client \<Rightarrow> string \<Rightarrow> jsval \<Rightarrow> world
     \<Rightarrow> ((jsval envelope, order envelope) outcome \<times> world) option" where
  "createAndTradeOrder M c marketId ord w =
     (case createOrder M c marketId ord w of
        (CallbackError e, w') \<Rightarrow> Some (CallbackError e, w')
      | (Thrown x, w') \<Rightarrow> Some (Thrown x, w')
      | (CallbackResult createdOrder, w') \<Rightarrow> pollOrderState M c createdOrder ''traded'' w')"

section \<open>Operations of the later revision (\<^verbatim>\<open>src/unnamed/part_002\<close>)\<close>

text \<open>The later revision keeps \<^verbatim>\<open>_getHmac\<close>, \<^verbatim>\<open>_getAuthHeaders\<close>, the pager,
  the poller and the operations above as they are, except for \<^verbatim>\<open>getBalances\<close>
  (the currency is optional) and \<^verbatim>\<open>cancelOrderId\<close> (the headers are built for the
  PUT and its body), and adds three operations.\<close>

definition getBalances_part002 ::
  "modules \<Rightarrow> client \<Rightarrow> string \<Rightarrow> world \<Rightarrow> (jsval envelope, jsval envelope) outcome \<times> world" where
  "getBalances_part002 M c currency w =
     (let path = (if currency \<noteq> '''' then ''/balances'' @ ''/'' @ currency else ''/balances'') in
      if secret c = '''' then (CallbackError apiKeyRequired, w)
      else
        (case getAuthHeaders M c ''GET'' path Undefined w of
               (Threw x, w1) \<Rightarrow> (Thrown x, w1)
             | (Returned hs, w1) \<Rightarrow>
                 (let (rp, w2) = send_json
                        \<lparr>verb = Get, url = getFullUrl c path, req_headers = hs, req_body = None\<rparr> w1
                  in (end_handler rp, w2))))"

definition cancelOrderId_part002 ::
  "modules \<Rightarrow> client \<Rightarrow> string \<Rightarrow> world \<Rightarrow> (cancel_failure, order envelope) outcome \<times> world" where
  "cancelOrderId_part002 M c orderId w =
     (let path = ''/orders/'' @ orderId in
      if secret c = '''' then (CallbackError (ErrorJson apiKeyRequired), w)
      else
        (let data = Obj [(''state'', Str ''canceling'')]
             in case getAuthHeaders M c ''PUT'' path data w of
               (Threw x, w1) \<Rightarrow> (Thrown x, w1)
             | (Returned hs, w1) \<Rightarrow>
                 (let (rp, w2) = send_order
                        \<lparr>verb = Put, url = getFullUrl c path, req_headers = hs, req_body = Some data\<rparr> w1
                  in (cancel_end_handler rp, w2))))"

record bank_account_opts =
  bank_currency :: string
  bank_name :: string
  email :: jsval
  phone :: jsval
  bank_account_holder_id :: jsval
  bank_account_holder_name :: jsval
  bank_account_number :: jsval
  bank_account_type :: jsval

text \<open>\<^verbatim>\<open>_.find(colombiaBanks, {name: opts.bank_name}).id\<close> is evaluated before the
  check of the secret; when no bank has the name, \<^verbatim>\<open>_.find\<close> returns
  \<^verbatim>\<open>undefined\<close> and reading its \<^verbatim>\<open>id\<close> throws.\<close>

definition registerBankAccount ::
  "modules \<Rightarrow> client \<Rightarrow> bank_account_opts \<Rightarrow> world
     \<Rightarrow> (jsval envelope, jsval envelope) outcome \<times> world" where
  "registerBankAccount M c opts w =
     (let path = ''/fiat_accounts/'' @ toUpper M (bank_currency opts) in
      case find (\<lambda>b. b_name b = bank_name opts) (colombiaBanks M) of
        None \<Rightarrow> (Thrown ''TypeError'', w)
      | Some b \<Rightarrow>
          (let surbtcOpts = Obj
                 [(''email'', email opts),
                  (''phone'', phone opts),
                  (''document_number'', bank_account_holder_id opts),
                  (''full_name'', bank_account_holder_name opts),
                  (''account_number'', bank_account_number opts),
                  (''account_type'', bank_account_type opts),
                  (''bank_id'', b_id b)]
           in if secret c = '''' then (CallbackError apiKeyRequired, w)
              else
                (case getAuthHeaders M c ''PUT'' path surbtcOpts w of
                       (Threw x, w1) \<Rightarrow> (Thrown x, w1)
                     | (Returned hs, w1) \<Rightarrow>
                         (let (rp, w2) = send_json
                                \<lparr>verb = Put, url = getFullUrl c path, req_headers = hs,
                                 req_body = Some surbtcOpts\<rparr> w1
                          in (end_handler rp, w2)))))"

record withdrawal_opts =
  w_currency :: string
  w_target_address :: string
  w_amount :: rat

text \<open>The test that rejects a Bitcoin address: the address is checked against
  \<^verbatim>\<open>'testnet'\<close> when \<^verbatim>\<open>'stg'\<close> occurs in the API URL at a position
  greater than 0, and against \<^verbatim>\<open>'prod'\<close> when it does not occur.\<close>

definition address_rejected :: "modules \<Rightarrow> client \<Rightarrow> string \<Rightarrow> bool" where
  "address_rejected M c address =
     ((indexOf (api c) ''stg'' > 0 \<and> \<not> validate M address ''testnet'') \<or>
      (indexOf (api c) ''stg'' < 0 \<and> \<not> validate M address ''prod''))"

text \<open>\<^verbatim>\<open>withdrawalOpts\<close> as it stands when the secret is checked; \<open>None\<close> when the
  function has already returned through the address check.\<close>

definition withdrawalOpts :: "modules \<Rightarrow> client \<Rightarrow> withdrawal_opts \<Rightarrow> jsval option" where
  "withdrawalOpts M c opts =
     (let currency = toUpper M (w_currency opts) in
      if currency = ''BTC'' then
        (if address_rejected M c (w_target_address opts) then None
         else Some (Obj
           [(''withdrawal_data'', Obj [(''target_address'', Str (w_target_address opts))]),
            (''amount'', Num (toSatoshi M (w_amount opts))),
            (''currency'', Str currency)]))
      else if currency = ''CLP'' \<or> currency = ''COP'' then
        Some (Obj
          [(''withdrawal_data'', Obj []),
           (''amount'', Num (multiply M (w_amount opts) 100)),
           (''currency'', Str currency)])
      else
        Some (Obj
          [(''withdrawal_data'', Obj []),
           (''amount'', Num 0),
           (''currency'', Str currency)]))"

definition invalidBitcoinAddress :: "jsval envelope" where
  "invalidBitcoinAddress = responseHandler_invalidRequest ''InvalidRequest:InvalidBitcoinAddress''"

definition requestWithdrawal ::
  "modules \<Rightarrow> client \<Rightarrow> withdrawal_opts \<Rightarrow> world
     \<Rightarrow> (jsval envelope, jsval envelope) outcome \<times> world" where
  "requestWithdrawal M c opts w =
     (let path = ''/withdrawals'' in
      case withdrawalOpts M c opts of
        None \<Rightarrow> (CallbackError invalidBitcoinAddress, w)
      | Some body \<Rightarrow>
          (if secret c = '''' then (CallbackError apiKeyRequired, w)
           else
             (case getAuthHeaders M c ''POST'' path body w of
                    (Threw x, w1) \<Rightarrow> (Thrown x, w1)
                  | (Returned hs, w1) \<Rightarrow>
                      (let (rp, w2) = send_json
                             \<lparr>verb = Post, url = getFullUrl c path, req_headers = hs,
                              req_body = Some body\<rparr> w1
                       in (end_handler rp, w2)))))"

record deposit_opts =
  d_amount :: rat
  d_currency :: string

definition registerDeposit ::
  "modules \<Rightarrow> client \<Rightarrow> deposit_opts \<Rightarrow> world
     \<Rightarrow> (jsval envelope, jsval envelope) outcome \<times> world" where
  "registerDeposit M c opts w =
     (let path = ''/deposits'';
          depositOpts = Obj
            [(''amount'', Num (multiply M (d_amount opts) 100)),
             (''currency'', Str (toUpper M (d_currency opts)))]
      in if secret c = '''' then (CallbackError apiKeyRequired, w)
         else
           (case getAuthHeaders M c ''POST'' path depositOpts w of
                  (Threw x, w1) \<Rightarrow> (Thrown x, w1)
                | (Returned hs, w1) \<Rightarrow>
                    (let (rp, w2) = send_json
                           \<lparr>verb = Post, url = getFullUrl c path, req_headers = hs,
                            req_body = Some depositOpts\<rparr> w1
                     in (end_handler rp, w2))))"

section \<open>The requests the operations send\<close>

text \<open>The request object that an operation hands to the transport when the secret is set,
  written out so that statements can name it: the verb, the full URL, the headers that
  \<^verbatim>\<open>_getAuthHeaders\<close> returns for the clock's next reading, and the body.\<close>

definition signed_headers_GET :: "modules \<Rightarrow> client \<Rightarrow> string \<Rightarrow> world \<Rightarrow> js_object" where
  "signed_headers_GET M c path w =
     (let timestamp = clock w (clock_reads w) in
      merged_headers c timestamp
        (Some (hmac_sha384_hex M (secret c) (message_without_body M c path timestamp))))"

definition signed_headers_with_body ::
  "modules \<Rightarrow> client \<Rightarrow> string \<Rightarrow> string \<Rightarrow> jsval \<Rightarrow> world \<Rightarrow> js_object" where
  "signed_headers_with_body M c meth path data w =
     (let timestamp = clock w (clock_reads w) in
      merged_headers c timestamp
        (Some (hmac_sha384_hex M (secret c) (message_with_body M c meth path data timestamp))))"

definition getOrderId_request :: "modules \<Rightarrow> client \<Rightarrow> string \<Rightarrow> world \<Rightarrow> http_request" where
  "getOrderId_request M c orderId w =
     \<lparr>verb = Get, url = getFullUrl c (''/orders/'' @ orderId),
      req_headers = signed_headers_GET M c (''/orders/'' @ orderId) w,
      req_body = None\<rparr>"

definition orders_path :: "string \<Rightarrow> nat \<Rightarrow> string" where
  "orders_path marketId page =
     (if page \<noteq> 0 then ''/markets/'' @ marketId @ ''/orders'' @ ''?page='' @ string_of_nat page
      else ''/markets/'' @ marketId @ ''/orders'')"

definition getOrdersRaw_request ::
  "modules \<Rightarrow> client \<Rightarrow> string \<Rightarrow> nat \<Rightarrow> world \<Rightarrow> http_request" where
  "getOrdersRaw_request M c marketId page w =
     \<lparr>verb = Get, url = getFullUrl c (orders_path marketId page),
      req_headers = signed_headers_GET M c (orders_path marketId page) w,
      req_body = None\<rparr>"

definition cancelOrderId_request :: "modules \<Rightarrow> client \<Rightarrow> string \<Rightarrow> world \<Rightarrow> http_request" where
  "cancelOrderId_request M c orderId w =
     \<lparr>verb = Put, url = getFullUrl c (''/orders/'' @ orderId),
      req_headers = signed_headers_GET M c (''/orders/'' @ orderId) w,
      req_body = Some (Obj [(''state'', Str ''canceling'')])\<rparr>"

definition cancelOrderId_part002_request ::
  "modules \<Rightarrow> client \<Rightarrow> string \<Rightarrow> world \<Rightarrow> http_request" where
  "cancelOrderId_part002_request M c orderId w =
     \<lparr>verb = Put, url = getFullUrl c (''/orders/'' @ orderId),
      req_headers = signed_headers_with_body M c ''PUT'' (''/orders/'' @ orderId)
                      (Obj [(''state'', Str ''canceling'')]) w,
      req_body = Some (Obj [(''state'', Str ''canceling'')])\<rparr>"

definition requestWithdrawal_request ::
  "modules \<Rightarrow> client \<Rightarrow> jsval \<Rightarrow> world \<Rightarrow> http_request" where
  "requestWithdrawal_request M c body w =
     \<lparr>verb = Post, url = getFullUrl c ''/withdrawals'',
      req_headers = signed_headers_with_body M c ''POST'' ''/withdrawals'' body w,
      req_body = Some body\<rparr>"

text \<open>The world after one authenticated request: the clock has been read once and the
  request has been sent.\<close>

definition after_request :: "http_request \<Rightarrow> world \<Rightarrow> world" where
  "after_request r w = w\<lparr>clock_reads := Suc (clock_reads w), events := events w @ [Sent r]\<rparr>"

section \<open>A concrete platform, client and exchange\<close>

text \<open>Stand-ins for the required modules, used where a statement is evaluated at a concrete
  input. The path of a URL is what follows the host; the keyed hash and the encoders only
  wrap their arguments.\<close>

definition demo_path :: "string \<Rightarrow> string" where
  "demo_path u = dropWhile (\<lambda>ch. ch \<noteq> CHR ''/'') (drop 2 (dropWhile (\<lambda>ch. ch \<noteq> CHR ''/'') u))"

definition demo_upper :: "string \<Rightarrow> string" where
  "demo_upper s = map (\<lambda>ch. if ch = CHR ''b'' then CHR ''B'' else if ch = CHR ''t'' then CHR ''T''
                           else if ch = CHR ''c'' then CHR ''C'' else ch) s"

definition demo_modules :: modules where
  "demo_modules =
     \<lparr>url_parse_path = demo_path,
      json_stringify = (\<lambda>v. case v of Obj ((k, _) # _) \<Rightarrow> ''{'' @ k @ ''}'' | _ \<Rightarrow> ''{}''),
      base64 = (\<lambda>s. ''b64:'' @ s),
      hmac_sha384_hex = (\<lambda>k m. k @ ''|'' @ m),
      capitalize = (\<lambda>s. s),
      lowerCase = (\<lambda>s. s),
      toUpper = demo_upper,
      validate = (\<lambda>address net. address = ''mkTestAddr'' \<and> net = ''testnet''
                                 \<or> address = ''1MainAddr'' \<and> net = ''prod''),
      toSatoshi = (\<lambda>q. q * 100000000),
      multiply = (\<lambda>a b. a * b),
      colombiaBanks = [\<lparr>b_name = ''Bancolombia'', b_id = Num 7\<rparr>]\<rparr>"

definition demo_client :: client where
  "demo_client =
     \<lparr>api = ''https://surbtc.com/api/v1'', key = ''k'', secret = ''s'', params = [],
      headers = [(''Accept'', Str ''application/json''),
                 (''Content-Type'', Str ''application/json'')]\<rparr>"

definition demo_order :: "string \<Rightarrow> string \<Rightarrow> order" where
  "demo_order i s = \<lparr>order_id = i, state = s, details = []\<rparr>"

text \<open>An exchange with a three-page listing numbered from 1, and an order that is
  \<^verbatim>\<open>traded\<close> whenever it is fetched.\<close>

definition demo_pages :: "listing list" where
  "demo_pages =
     [\<lparr>orders = [demo_order ''1'' ''traded'', demo_order ''2'' ''pending''],
       meta = \<lparr>current_page = Some 1, total_pages = Some 3, total_count = Some 5\<rparr>\<rparr>,
      \<lparr>orders = [demo_order ''3'' ''pending'', demo_order ''4'' ''traded''],
       meta = \<lparr>current_page = Some 2, total_pages = Some 3, total_count = Some 5\<rparr>\<rparr>,
      \<lparr>orders = [demo_order ''5'' ''traded''],
       meta = \<lparr>current_page = Some 3, total_pages = Some 3, total_count = Some 5\<rparr>\<rparr>]"

definition demo_world :: world where
  "demo_world =
     \<lparr>clock = (\<lambda>k. 1500000000000 + int k),
      clock_reads = 0,
      json_endpoint = (\<lambda>k r. HttpOk Null),
      order_endpoint = (\<lambda>k r. HttpOk (demo_order ''9'' ''traded'')),
      listing_endpoint = (\<lambda>k r. if k < 3 then HttpOk (demo_pages ! k)
                                 else HttpError \<lparr>declared_kind = Some ''not_found'', detail = Null\<rparr>),
      events = []\<rparr>"

text \<open>An exchange that answers two page fetches and fails the third, one that answers the
  first page fetch and gives no response to the second, and one that numbers its single
  page 0.\<close>

definition failing_world :: world where
  "failing_world =
     demo_world\<lparr>listing_endpoint :=
       (\<lambda>k r. if k < 2 then HttpOk (demo_pages ! k)
              else HttpError \<lparr>declared_kind = Some ''server_error'', detail = Null\<rparr>)\<rparr>"

definition dropped_world :: world where
  "dropped_world =
     demo_world\<lparr>listing_endpoint := (\<lambda>k r. if k = 0 then HttpOk (hd demo_pages) else NoResponse)\<rparr>"

definition zero_based_world :: world where
  "zero_based_world =
     demo_world\<lparr>listing_endpoint :=
       (\<lambda>k r. HttpOk
          \<lparr>orders = [demo_order ''1'' ''traded''],
           meta = \<lparr>current_page = Some 0, total_pages = Some 1, total_count = Some 1\<rparr>\<rparr>)\<rparr>"

text \<open>A client configured with an API URL that begins with \<^verbatim>\<open>stg\<close>.\<close>

definition stg_client :: client where
  "stg_client = demo_client\<lparr>api := ''stg.surbtc.com/api/v2''\<rparr>"


section \<open>Properties of the signer and of the header builder\<close>

subsection \<open>Assigning one object's properties over another\<close>

lemma map_of_fold_update:
  "map_of (fold (\<lambda>(k, v). AList.update k v) xs ys) = map_of ys ++ map_of (rev xs)"
proof (induction xs arbitrary: ys)
  case Nil
  show ?case by simp
next
  case (Cons x xs)
  obtain k v where x: "x = (k, v)" by (cases x)
  have "map_of (fold (\<lambda>(k, v). AList.update k v) (x # xs) ys)
        = map_of (AList.update k v ys) ++ map_of (rev xs)"
    using Cons.IH [of "AList.update k v ys"] by (simp add: x)
  also have "\<dots> = map_of ys ++ map_of (rev (x # xs))"
    by (simp add: x update_conv' map_add_upd_left fun_eq_iff map_add_def split: option.splits)
  finally show ?case .
qed

lemma map_of_rev_distinct:
  "distinct (map fst xs) \<Longrightarrow> map_of (rev xs) = map_of xs"
proof (induction xs)
  case Nil
  show ?case by simp
next
  case (Cons x xs)
  obtain k v where x: "x = (k, v)" by (cases x)
  from Cons.prems have "map_of xs k = None"
    by (simp add: x map_of_eq_None_iff)
  with Cons show ?case
    by (auto simp: x map_add_def fun_eq_iff split: option.splits)
qed

lemma keys_fold_update:
  "fst ` set (fold (\<lambda>(k, v). AList.update k v) xs ys) = fst ` set ys \<union> fst ` set xs"
  by (induction xs arbitrary: ys) (auto simp: dom_update split: prod.splits)

subsection \<open>The concrete platform, evaluated\<close>

lemma string_of_int_demo: "string_of_int 1500000000000 = ''1500000000000''"
  by (simp add: string_of_int_def string_of_nat.simps)

lemma demo_client_simps:
  "api demo_client = ''https://surbtc.com/api/v1''"
  "key demo_client = ''k''"
  "secret demo_client = ''s''"
  "headers demo_client =
     [(''Accept'', Str ''application/json''), (''Content-Type'', Str ''application/json'')]"
  by (simp_all add: demo_client_def)

lemma demo_modules_simps:
  "url_parse_path demo_modules = demo_path"
  "json_stringify demo_modules (Obj ((k, v) # kvs)) = ''{'' @ k @ ''}''"
  "json_stringify demo_modules Undefined = ''{}''"
  "base64 demo_modules s = ''b64:'' @ s"
  "hmac_sha384_hex demo_modules ky m = ky @ ''|'' @ m"
  "capitalize demo_modules s = s"
  "lowerCase demo_modules s = s"
  "toUpper demo_modules = demo_upper"
  "validate demo_modules ad n =
     (ad = ''mkTestAddr'' \<and> n = ''testnet'' \<or> ad = ''1MainAddr'' \<and> n = ''prod'')"
  "toSatoshi demo_modules q = q * 100000000"
  "multiply demo_modules q1 q2 = q1 * q2"
  "colombiaBanks demo_modules = [\<lparr>b_name = ''Bancolombia'', b_id = Num 7\<rparr>]"
  by (simp_all add: demo_modules_def)

lemma demo_world_simps:
  "clock demo_world k = 1500000000000 + int k"
  "clock_reads demo_world = 0"
  "json_endpoint demo_world k r = HttpOk Null"
  "order_endpoint demo_world k r = HttpOk (demo_order ''9'' ''traded'')"
  "listing_endpoint demo_world k r =
     (if k < 3 then HttpOk (demo_pages ! k)
      else HttpError \<lparr>declared_kind = Some ''not_found'', detail = Null\<rparr>)"
  "events demo_world = []"
  by (simp_all add: demo_world_def)

lemma demo_path_orders:
  "demo_path ''https://surbtc.com/api/v1/orders/9'' = ''/api/v1/orders/9''"
  by (simp add: demo_path_def)

lemma demo_messages:
  "message_without_body demo_modules demo_client ''/orders/9'' 1500000000000
     = ''GET /api/v1/orders/9 1500000000000''"
  "message_with_body demo_modules demo_client ''PUT'' ''/orders/9''
       (Obj [(''state'', Str ''canceling'')]) 1500000000000
     = ''PUT /api/v1/orders/9 b64:{state} 1500000000000''"
  by (simp_all add: message_without_body_def message_with_body_def getFullUrl_def
        demo_modules_simps demo_client_simps demo_path_orders string_of_int_demo)

subsection \<open>The signed message\<close>

lemma getHmac_GET:
  "getHmac M c t ''GET'' path data =
     Returned (Some (hmac_sha384_hex M (secret c) (message_without_body M c path t)))"
  by (simp add: getHmac_def signed_message_def)

lemma getHmac_with_body:
  "meth = ''POST'' \<or> meth = ''PUT'' \<Longrightarrow> data \<noteq> Undefined \<Longrightarrow>
   getHmac M c t meth path data =
     Returned (Some (hmac_sha384_hex M (secret c) (message_with_body M c meth path data t)))"
  by (auto simp: getHmac_def signed_message_def)

lemma demo_getHmac_GET:
  "getHmac demo_modules demo_client 1500000000000 ''GET'' ''/orders/9'' data
     = Returned (Some ''s|GET /api/v1/orders/9 1500000000000'')"
  by (simp add: getHmac_GET demo_messages demo_modules_simps demo_client_simps)

text \<open>
  Claim C1, as the code has it. The signer returns the keyed hash (the secret is the key) of
  a message that depends on the verb: for \<^verbatim>\<open>GET\<close> the message is
  \<^verbatim>\<open>GET {PATH} {NONCE}\<close>; for \<^verbatim>\<open>POST\<close> and \<^verbatim>\<open>PUT\<close> with a body
  it is \<^verbatim>\<open>{METHOD} {PATH} {BASE64(JSON(body))} {NONCE}\<close>; \<^verbatim>\<open>PATH\<close> is the
  path component of the API base URL followed by the request path. For every other verb
  (\<^verbatim>\<open>DELETE\<close> included) the signer returns without a signature.
\<close>

theorem getHmac_message_by_verb:
  "getHmac M c t ''GET'' path data =
     Returned (Some (hmac_sha384_hex M (secret c)
       (''GET'' @ '' '' @ url_parse_path M (api c @ path) @ '' '' @ string_of_int t)))
   \<and> (data \<noteq> Undefined \<longrightarrow>
        getHmac M c t ''POST'' path data =
          Returned (Some (hmac_sha384_hex M (secret c)
            (''POST'' @ '' '' @ url_parse_path M (api c @ path) @ '' '' @
             base64 M (json_stringify M data) @ '' '' @ string_of_int t)))
      \<and> getHmac M c t ''PUT'' path data =
          Returned (Some (hmac_sha384_hex M (secret c)
            (''PUT'' @ '' '' @ url_parse_path M (api c @ path) @ '' '' @
             base64 M (json_stringify M data) @ '' '' @ string_of_int t))))
   \<and> (meth \<noteq> ''GET'' \<and> meth \<noteq> ''POST'' \<and> meth \<noteq> ''PUT'' \<longrightarrow>
        getHmac M c t meth path data = Returned None)"
  by (simp add: getHmac_def signed_message_def message_without_body_def message_with_body_def
        getFullUrl_def)

text \<open>The three branches at a concrete client, path and nonce.\<close>

theorem getHmac_message_by_verb_witness:
  "getHmac demo_modules demo_client 1500000000000 ''GET'' ''/orders/9''
        (Obj [(''state'', Str ''canceling'')])
     = Returned (Some ''s|GET /api/v1/orders/9 1500000000000'')
   \<and> Obj [(''state'', Str ''canceling'')] \<noteq> Undefined
   \<and> getHmac demo_modules demo_client 1500000000000 ''PUT'' ''/orders/9''
        (Obj [(''state'', Str ''canceling'')])
     = Returned (Some ''s|PUT /api/v1/orders/9 b64:{state} 1500000000000'')
   \<and> ''DELETE'' \<noteq> ''GET'' \<and> ''DELETE'' \<noteq> ''POST'' \<and> ''DELETE'' \<noteq> ''PUT''
   \<and> getHmac demo_modules demo_client 1500000000000 ''DELETE'' ''/orders/9''
        (Obj [(''state'', Str ''canceling'')]) = Returned None"
  using getHmac_message_by_verb [of demo_modules demo_client 1500000000000 "''/orders/9''"
          "Obj [(''state'', Str ''canceling'')]" "''DELETE''"]
  by (simp add: demo_modules_simps demo_client_simps demo_path_orders string_of_int_demo)

text \<open>Claim C1 as stated gives a body-less \<^verbatim>\<open>DELETE\<close> the message
  \<^verbatim>\<open>DELETE {PATH} {NONCE}\<close>; the signer does not sign it.\<close>

theorem getHmac_DELETE_counterexample:
  "getHmac demo_modules demo_client 1500000000000 ''DELETE'' ''/orders/9'' Undefined
     \<noteq> Returned (Some (hmac_sha384_hex demo_modules (secret demo_client)
               ''DELETE /api/v1/orders/9 1500000000000''))"
  by (simp add: getHmac_def signed_message_def)

subsection \<open>The authentication headers\<close>

lemma merged_headers_names:
  "fst ` set (merged_headers c t h)
     = {''X-SBTC-APIKEY'', ''X-SBTC-NONCE'', ''X-SBTC-SIGNATURE''} \<union> fst ` set (headers c)"
  by (simp add: merged_headers_def Let_def keys_fold_update insert_commute)

lemma merged_headers_lookup:
  "distinct (map fst (headers c)) \<Longrightarrow>
   map_of (merged_headers c t h)
     = map_of [(''X-SBTC-APIKEY'', Str (key c)),
               (''X-SBTC-NONCE'', Num (of_int t)),
               (''X-SBTC-SIGNATURE'', signature_value h)]
       ++ map_of (headers c)"
  by (simp add: merged_headers_def Let_def map_of_fold_update map_of_rev_distinct)

text \<open>
  Claim C3, as the code has it. Building the headers reads the clock exactly once and changes
  nothing else. When the signer returns, the header names are those of the client's base
  headers together with \<^verbatim>\<open>X-SBTC-APIKEY\<close>, \<^verbatim>\<open>X-SBTC-NONCE\<close> and
  \<^verbatim>\<open>X-SBTC-SIGNATURE\<close>; the three authentication headers carry the key, the clock
  reading, and the signer's output for that same reading, and a base header of the same name
  takes precedence over them.
\<close>

theorem getAuthHeaders_built:
  "snd (getAuthHeaders M c meth path data w) = w\<lparr>clock_reads := Suc (clock_reads w)\<rparr>
   \<and> (getHmac M c (clock w (clock_reads w)) meth path data = Returned h \<longrightarrow>
        fst (getAuthHeaders M c meth path data w)
          = Returned (merged_headers c (clock w (clock_reads w)) h)
      \<and> fst ` set (merged_headers c (clock w (clock_reads w)) h)
          = {''X-SBTC-APIKEY'', ''X-SBTC-NONCE'', ''X-SBTC-SIGNATURE''} \<union> fst ` set (headers c)
      \<and> (distinct (map fst (headers c)) \<longrightarrow>
           map_of (merged_headers c (clock w (clock_reads w)) h)
             = map_of [(''X-SBTC-APIKEY'', Str (key c)),
                       (''X-SBTC-NONCE'', Num (of_int (clock w (clock_reads w)))),
                       (''X-SBTC-SIGNATURE'', signature_value h)]
               ++ map_of (headers c)))"
  by (simp add: getAuthHeaders_def Let_def merged_headers_names merged_headers_lookup
        split: completion.splits)

lemma demo_merged_headers:
  "merged_headers demo_client 1500000000000 (Some ''s|GET /api/v1/orders/9 1500000000000'')
     = [(''X-SBTC-APIKEY'', Str ''k''),
        (''X-SBTC-NONCE'', Num 1500000000000),
        (''X-SBTC-SIGNATURE'', Str ''s|GET /api/v1/orders/9 1500000000000''),
        (''Accept'', Str ''application/json''),
        (''Content-Type'', Str ''application/json'')]"
  by (simp add: merged_headers_def Let_def demo_client_simps signature_value_def)

lemma demo_getAuthHeaders:
  "fst (getAuthHeaders demo_modules demo_client ''GET'' ''/orders/9'' Undefined demo_world)
     = Returned
        [(''X-SBTC-APIKEY'', Str ''k''),
         (''X-SBTC-NONCE'', Num 1500000000000),
         (''X-SBTC-SIGNATURE'', Str ''s|GET /api/v1/orders/9 1500000000000''),
         (''Accept'', Str ''application/json''),
         (''Content-Type'', Str ''application/json'')]"
  by (simp add: getAuthHeaders_def Let_def demo_world_simps demo_getHmac_GET
        demo_merged_headers)

text \<open>Claim C3 as stated names the headers \<^verbatim>\<open>X-API-KEY\<close>, \<^verbatim>\<open>X-NONCE\<close> and
  \<^verbatim>\<open>X-SIGNATURE\<close>; the built object has no property of any of these names.\<close>

theorem getAuthHeaders_names_counterexample:
  "fst (getAuthHeaders demo_modules demo_client ''GET'' ''/orders/9'' Undefined demo_world)
     = Returned
        [(''X-SBTC-APIKEY'', Str ''k''),
         (''X-SBTC-NONCE'', Num 1500000000000),
         (''X-SBTC-SIGNATURE'', Str ''s|GET /api/v1/orders/9 1500000000000''),
         (''Accept'', Str ''application/json''),
         (''Content-Type'', Str ''application/json'')]
   \<and> ''X-API-KEY'' \<notin> {''X-SBTC-APIKEY'', ''X-SBTC-NONCE'', ''X-SBTC-SIGNATURE'', ''Accept'',
                        ''Content-Type''}
   \<and> ''X-NONCE'' \<notin> {''X-SBTC-APIKEY'', ''X-SBTC-NONCE'', ''X-SBTC-SIGNATURE'', ''Accept'',
                      ''Content-Type''}
   \<and> ''X-SIGNATURE'' \<notin> {''X-SBTC-APIKEY'', ''X-SBTC-NONCE'', ''X-SBTC-SIGNATURE'', ''Accept'',
                          ''Content-Type''}"
  by (simp add: demo_getAuthHeaders)

text \<open>The default headers have distinct names; the nonce and the signature at the concrete
  client.\<close>

theorem getAuthHeaders_built_witness:
  "getHmac demo_modules demo_client (clock demo_world (clock_reads demo_world)) ''GET''
       ''/orders/9'' Undefined
     = Returned (Some ''s|GET /api/v1/orders/9 1500000000000'')
   \<and> distinct (map fst (headers demo_client))
   \<and> clock_reads (snd (getAuthHeaders demo_modules demo_client ''GET'' ''/orders/9'' Undefined
        demo_world)) = 1
   \<and> fst (getAuthHeaders demo_modules demo_client ''GET'' ''/orders/9'' Undefined demo_world)
     = Returned (merged_headers demo_client 1500000000000
         (Some ''s|GET /api/v1/orders/9 1500000000000''))
   \<and> map_of (merged_headers demo_client 1500000000000
         (Some ''s|GET /api/v1/orders/9 1500000000000'')) ''X-SBTC-SIGNATURE''
     = Some (Str ''s|GET /api/v1/orders/9 1500000000000'')
   \<and> map_of (merged_headers demo_client 1500000000000
         (Some ''s|GET /api/v1/orders/9 1500000000000'')) ''X-SBTC-NONCE''
     = Some (Num 1500000000000)"
  using getAuthHeaders_built [of demo_modules demo_client "''GET''" "''/orders/9''" Undefined
          demo_world "Some ''s|GET /api/v1/orders/9 1500000000000''"]
  by (simp add: demo_getHmac_GET signature_value_def demo_world_simps demo_client_simps)

section \<open>One authenticated round trip\<close>

text \<open>With a secret set, each of these operations reads the clock once, sends the request
  written out above, and hands the exchange's answer to its \<^verbatim>\<open>.end\<close> handler.\<close>

lemma getAuthHeaders_world:
  "snd (getAuthHeaders M c meth path data w) = w\<lparr>clock_reads := Suc (clock_reads w)\<rparr>"
  by (simp add: getAuthHeaders_def Let_def split: completion.splits)

lemma getAuthHeaders_GET:
  "getAuthHeaders M c ''GET'' path data w =
     (Returned (signed_headers_GET M c path w), w\<lparr>clock_reads := Suc (clock_reads w)\<rparr>)"
  by (simp add: getAuthHeaders_def Let_def getHmac_GET signed_headers_GET_def)

lemma getAuthHeaders_with_body:
  "meth = ''POST'' \<or> meth = ''PUT'' \<Longrightarrow> data \<noteq> Undefined \<Longrightarrow>
   getAuthHeaders M c meth path data w =
     (Returned (signed_headers_with_body M c meth path data w),
      w\<lparr>clock_reads := Suc (clock_reads w)\<rparr>)"
  by (simp add: getAuthHeaders_def Let_def getHmac_with_body signed_headers_with_body_def)

lemma requests_clock_reads [simp]: "requests (w\<lparr>clock_reads := n\<rparr>) = requests w"
  by (simp add: requests_def)

lemma requests_Sent [simp]:
  "requests (w\<lparr>events := events w @ [Sent r]\<rparr>) = requests w @ [r]"
  by (simp add: requests_def)

lemma requests_Timeout [simp]:
  "requests (w\<lparr>events := events w @ [Timeout d]\<rparr>) = requests w"
  by (simp add: requests_def)

lemma requests_after_request [simp]: "requests (after_request r w) = requests w @ [r]"
  by (simp add: after_request_def requests_def)

lemma after_request_fields [simp]:
  "clock (after_request r w) = clock w"
  "clock_reads (after_request r w) = Suc (clock_reads w)"
  "json_endpoint (after_request r w) = json_endpoint w"
  "order_endpoint (after_request r w) = order_endpoint w"
  "listing_endpoint (after_request r w) = listing_endpoint w"
  "events (after_request r w) = events w @ [Sent r]"
  by (simp_all add: after_request_def)

lemma getOrderId_run:
  "secret c \<noteq> '''' \<Longrightarrow>
   getOrderId M c orderId w =
     (end_handler (order_endpoint w (length (requests w)) (getOrderId_request M c orderId w)),
      after_request (getOrderId_request M c orderId w) w)"
  by (simp add: getOrderId_def getOrderId_request_def send_order_def after_request_def Let_def
        getAuthHeaders_GET)

lemma getOrdersRaw_run:
  "secret c \<noteq> '''' \<Longrightarrow>
   getOrdersRaw M c marketId page w =
     (end_handler (listing_endpoint w (length (requests w))
        (getOrdersRaw_request M c marketId page w)),
      after_request (getOrdersRaw_request M c marketId page w) w)"
  by (simp add: getOrdersRaw_def getOrdersRaw_request_def orders_path_def send_listing_def
        after_request_def Let_def getAuthHeaders_GET)

lemma cancelOrderId_run:
  "secret c \<noteq> '''' \<Longrightarrow>
   cancelOrderId M c orderId w =
     (cancel_end_handler (order_endpoint w (length (requests w))
        (cancelOrderId_request M c orderId w)),
      after_request (cancelOrderId_request M c orderId w) w)"
  by (simp add: cancelOrderId_def cancelOrderId_request_def send_order_def after_request_def
        Let_def getAuthHeaders_GET)

lemma cancelOrderId_part002_run:
  "secret c \<noteq> '''' \<Longrightarrow>
   cancelOrderId_part002 M c orderId w =
     (cancel_end_handler (order_endpoint w (length (requests w))
        (cancelOrderId_part002_request M c orderId w)),
      after_request (cancelOrderId_part002_request M c orderId w) w)"
  by (simp add: cancelOrderId_part002_def cancelOrderId_part002_request_def send_order_def
        after_request_def Let_def getAuthHeaders_with_body)

lemma withdrawalOpts_defined: "withdrawalOpts M c opts = Some body \<Longrightarrow> body \<noteq> Undefined"
  by (auto simp: withdrawalOpts_def Let_def split: if_splits)

lemma requestWithdrawal_run:
  "secret c \<noteq> '''' \<Longrightarrow> withdrawalOpts M c opts = Some body \<Longrightarrow>
   requestWithdrawal M c opts w =
     (end_handler (json_endpoint w (length (requests w)) (requestWithdrawal_request M c body w)),
      after_request (requestWithdrawal_request M c body w) w)"
  by (frule withdrawalOpts_defined)
     (simp add: requestWithdrawal_def requestWithdrawal_request_def send_json_def
        after_request_def Let_def getAuthHeaders_with_body)

section \<open>Operations on a client without a secret\<close>

text \<open>
  Claim C2, as the code has it. On a client whose secret is the empty string,
  \<^verbatim>\<open>getBalances\<close> (both revisions), \<^verbatim>\<open>getQuotation\<close>,
  \<^verbatim>\<open>getReverseQuotation\<close>, \<^verbatim>\<open>createOrder\<close>, \<^verbatim>\<open>getOrdersRaw\<close>,
  \<^verbatim>\<open>getOrderId\<close>, \<^verbatim>\<open>cancelOrderId\<close> (both revisions) and
  \<^verbatim>\<open>registerDeposit\<close> call back with the error
  \<^verbatim>\<open>InvalidRequest:ApiKeyRequired\<close> and leave the world as it was: nothing is sent and
  the clock is not read. So does \<^verbatim>\<open>getExchangeFee\<close> when it is called with its
  callback in fourth position, and \<^verbatim>\<open>registerBankAccount\<close> when the bank name is in
  the bank table. \<^verbatim>\<open>requestWithdrawal\<close> checks a Bitcoin address before the secret:
  with a rejected address it calls back with \<^verbatim>\<open>InvalidRequest:InvalidBitcoinAddress\<close>,
  otherwise with \<^verbatim>\<open>InvalidRequest:ApiKeyRequired\<close>, and sends nothing either way.
\<close>

theorem empty_secret_fails_fast:
  assumes "secret c = ''''"
  shows
   "error_type apiKeyRequired = Some ''InvalidRequest:ApiKeyRequired''
    \<and> getBalances M c currency w = (CallbackError apiKeyRequired, w)
    \<and> getBalances_part002 M c currency w = (CallbackError apiKeyRequired, w)
    \<and> (marketOrder \<noteq> MarketOrderIsCallback \<longrightarrow>
          getExchangeFee M c marketId type marketOrder w = (CallbackError apiKeyRequired, w))
    \<and> getQuotation M c marketId type amount w = (CallbackError apiKeyRequired, w)
    \<and> getReverseQuotation M c marketId type amount w = (CallbackError apiKeyRequired, w)
    \<and> createOrder M c marketId ord w = (CallbackError apiKeyRequired, w)
    \<and> getOrdersRaw M c marketId page w = (CallbackError apiKeyRequired, w)
    \<and> getOrderId M c orderId w = (CallbackError apiKeyRequired, w)
    \<and> cancelOrderId M c orderId w = (CallbackError (ErrorJson apiKeyRequired), w)
    \<and> cancelOrderId_part002 M c orderId w = (CallbackError (ErrorJson apiKeyRequired), w)
    \<and> registerDeposit M c dopts w = (CallbackError apiKeyRequired, w)
    \<and> requestWithdrawal M c wopts w =
          (if toUpper M (w_currency wopts) = ''BTC''
              \<and> address_rejected M c (w_target_address wopts)
           then (CallbackError invalidBitcoinAddress, w)
           else (CallbackError apiKeyRequired, w))
    \<and> (find (\<lambda>b. b_name b = bank_name bopts) (colombiaBanks M) \<noteq> None \<longrightarrow>
          registerBankAccount M c bopts w = (CallbackError apiKeyRequired, w))"
proof -
  have fee: "marketOrder \<noteq> MarketOrderIsCallback \<longrightarrow>
          getExchangeFee M c marketId type marketOrder w = (CallbackError apiKeyRequired, w)"
    using assms by (simp add: getExchangeFee_def)
  have wd: "requestWithdrawal M c wopts w =
          (if toUpper M (w_currency wopts) = ''BTC''
              \<and> address_rejected M c (w_target_address wopts)
           then (CallbackError invalidBitcoinAddress, w)
           else (CallbackError apiKeyRequired, w))"
    using assms by (simp add: requestWithdrawal_def withdrawalOpts_def Let_def)
  have bank: "find (\<lambda>b. b_name b = bank_name bopts) (colombiaBanks M) \<noteq> None \<longrightarrow>
          registerBankAccount M c bopts w = (CallbackError apiKeyRequired, w)"
    using assms by (auto simp: registerBankAccount_def Let_def)
  have rest:
    "error_type apiKeyRequired = Some ''InvalidRequest:ApiKeyRequired''"
    "getBalances M c currency w = (CallbackError apiKeyRequired, w)"
    "getBalances_part002 M c currency w = (CallbackError apiKeyRequired, w)"
    "getQuotation M c marketId type amount w = (CallbackError apiKeyRequired, w)"
    "getReverseQuotation M c marketId type amount w = (CallbackError apiKeyRequired, w)"
    "createOrder M c marketId ord w = (CallbackError apiKeyRequired, w)"
    "getOrdersRaw M c marketId page w = (CallbackError apiKeyRequired, w)"
    "getOrderId M c orderId w = (CallbackError apiKeyRequired, w)"
    "cancelOrderId M c orderId w = (CallbackError (ErrorJson apiKeyRequired), w)"
    "cancelOrderId_part002 M c orderId w = (CallbackError (ErrorJson apiKeyRequired), w)"
    "registerDeposit M c dopts w = (CallbackError apiKeyRequired, w)"
    using assms
    by (simp_all add: apiKeyRequired_def responseHandler_invalidRequest_def getBalances_def
          getBalances_part002_def getQuotation_def getReverseQuotation_def quotation_def
          createOrder_def getOrdersRaw_def getOrderId_def cancelOrderId_def
          cancelOrderId_part002_def registerDeposit_def Let_def)
  from fee wd bank rest show ?thesis by blast
qed


lemma indexOf_demo_api: "indexOf ''https://surbtc.com/api/v1'' ''stg'' = - 1"
  by (simp add: indexOf_def)

lemma demo_upper_btc: "demo_upper ''btc'' = ''BTC''"
  by (simp add: demo_upper_def)

text \<open>Claim C2 as stated promises \<^verbatim>\<open>InvalidRequest:ApiKeyRequired\<close> from every
  operation; a Bitcoin withdrawal to a rejected address on a client without a secret calls
  back with the address error instead.\<close>

theorem empty_secret_withdrawal_counterexample:
  "secret (demo_client\<lparr>secret := ''''\<rparr>) = ''''
   \<and> requestWithdrawal demo_modules (demo_client\<lparr>secret := ''''\<rparr>)
        \<lparr>w_currency = ''btc'', w_target_address = ''bogus'', w_amount = 1\<rparr> demo_world
      = (CallbackError invalidBitcoinAddress, demo_world)
   \<and> error_type invalidBitcoinAddress = Some ''InvalidRequest:InvalidBitcoinAddress''
   \<and> invalidBitcoinAddress \<noteq> apiKeyRequired"
  by (simp add: requestWithdrawal_def withdrawalOpts_def address_rejected_def Let_def
        demo_modules_simps demo_client_simps demo_upper_btc indexOf_demo_api
        invalidBitcoinAddress_def apiKeyRequired_def responseHandler_invalidRequest_def)

text \<open>A client without a secret: a fee lookup with all four arguments, an order lookup, a
  withdrawal to an accepted address and a bank account at a listed bank.\<close>

theorem empty_secret_fails_fast_witness:
  "secret (demo_client\<lparr>secret := ''''\<rparr>) = ''''
   \<and> MarketOrderTruthy \<noteq> MarketOrderIsCallback
   \<and> getExchangeFee demo_modules (demo_client\<lparr>secret := ''''\<rparr>) ''btc-clp'' ''bid''
        MarketOrderTruthy demo_world = (CallbackError apiKeyRequired, demo_world)
   \<and> getOrderId demo_modules (demo_client\<lparr>secret := ''''\<rparr>) ''9'' demo_world
        = (CallbackError apiKeyRequired, demo_world)
   \<and> requestWithdrawal demo_modules (demo_client\<lparr>secret := ''''\<rparr>)
        \<lparr>w_currency = ''btc'', w_target_address = ''1MainAddr'', w_amount = 1\<rparr> demo_world
        = (CallbackError apiKeyRequired, demo_world)
   \<and> find (\<lambda>b. b_name b = ''Bancolombia'') (colombiaBanks demo_modules) \<noteq> None
   \<and> registerBankAccount demo_modules (demo_client\<lparr>secret := ''''\<rparr>)
        \<lparr>bank_currency = ''cop'', bank_name = ''Bancolombia'', email = Str ''a@b.co'',
         phone = Str ''1'', bank_account_holder_id = Str ''2'',
         bank_account_holder_name = Str ''n'', bank_account_number = Str ''3'',
         bank_account_type = Str ''savings''\<rparr> demo_world
        = (CallbackError apiKeyRequired, demo_world)"
  using empty_secret_fails_fast [of "demo_client\<lparr>secret := ''''\<rparr>" demo_modules _ demo_world
          MarketOrderTruthy "''btc-clp''" "''bid''" _ _ _ "''9''" _
          "\<lparr>w_currency = ''btc'', w_target_address = ''1MainAddr'', w_amount = 1\<rparr>"
          "\<lparr>bank_currency = ''cop'', bank_name = ''Bancolombia'', email = Str ''a@b.co'',
            phone = Str ''1'', bank_account_holder_id = Str ''2'',
            bank_account_holder_name = Str ''n'', bank_account_number = Str ''3'',
            bank_account_type = Str ''savings''\<rparr>"]
  by (simp add: demo_modules_simps demo_client_simps demo_upper_btc indexOf_demo_api
        address_rejected_def)

section \<open>Cancelling an order\<close>

lemma cancel_end_handler_ok:
  "cancel_end_handler (HttpOk ord) =
     (if state ord \<noteq> ''canceling'' \<and> state ord \<noteq> ''canceled''
      then CallbackError (ResponseJson
             \<lparr>success = False, error_type = Some ''order_not_valid_for_canceling'',
              payload = ord\<rparr>)
      else CallbackResult \<lparr>success = True, error_type = None, payload = ord\<rparr>)"
  by (simp add: cancel_end_handler_def responseHandler_success_def Let_def)

text \<open>
  Claim C7. With a secret set, \<^verbatim>\<open>cancelOrderId\<close> of either revision sends one
  request; when the exchange answers it with an order, the call fails with that order's
  envelope marked \<^verbatim>\<open>success: false\<close> and \<^verbatim>\<open>order_not_valid_for_canceling\<close>
  if the order's state is neither \<^verbatim>\<open>canceling\<close> nor \<^verbatim>\<open>canceled\<close>, and
  succeeds with the order's success envelope otherwise.
\<close>

theorem cancelOrderId_checks_state:
  assumes "secret c \<noteq> ''''"
  shows
   "(order_endpoint w (length (requests w)) (cancelOrderId_request M c orderId w) = HttpOk ord
       \<longrightarrow> cancelOrderId M c orderId w =
         (if state ord \<noteq> ''canceling'' \<and> state ord \<noteq> ''canceled''
          then CallbackError (ResponseJson
                 \<lparr>success = False, error_type = Some ''order_not_valid_for_canceling'',
                  payload = ord\<rparr>)
          else CallbackResult \<lparr>success = True, error_type = None, payload = ord\<rparr>,
          after_request (cancelOrderId_request M c orderId w) w))
    \<and> (order_endpoint w (length (requests w)) (cancelOrderId_part002_request M c orderId w)
         = HttpOk ord
       \<longrightarrow> cancelOrderId_part002 M c orderId w =
         (if state ord \<noteq> ''canceling'' \<and> state ord \<noteq> ''canceled''
          then CallbackError (ResponseJson
                 \<lparr>success = False, error_type = Some ''order_not_valid_for_canceling'',
                  payload = ord\<rparr>)
          else CallbackResult \<lparr>success = True, error_type = None, payload = ord\<rparr>,
          after_request (cancelOrderId_part002_request M c orderId w) w))"
  using assms
  by (simp add: cancelOrderId_run cancelOrderId_part002_run cancel_end_handler_ok)

lemma demo_order_simps:
  "order_id (demo_order i s) = i" "state (demo_order i s) = s"
  by (simp_all add: demo_order_def)

text \<open>An exchange that reports the order as \<^verbatim>\<open>filled\<close>, as \<^verbatim>\<open>canceled\<close>
  and as \<^verbatim>\<open>canceling\<close>.\<close>

theorem cancelOrderId_checks_state_witness:
  "secret demo_client \<noteq> ''''
   \<and> fst (cancelOrderId demo_modules demo_client ''9''
        (demo_world\<lparr>order_endpoint := \<lambda>k r. HttpOk (demo_order ''9'' ''filled'')\<rparr>))
      = CallbackError (ResponseJson
          \<lparr>success = False, error_type = Some ''order_not_valid_for_canceling'',
           payload = demo_order ''9'' ''filled''\<rparr>)
   \<and> fst (cancelOrderId_part002 demo_modules demo_client ''9''
        (demo_world\<lparr>order_endpoint := \<lambda>k r. HttpOk (demo_order ''9'' ''canceled'')\<rparr>))
      = CallbackResult
          \<lparr>success = True, error_type = None, payload = demo_order ''9'' ''canceled''\<rparr>
   \<and> fst (cancelOrderId demo_modules demo_client ''9''
        (demo_world\<lparr>order_endpoint := \<lambda>k r. HttpOk (demo_order ''9'' ''canceling'')\<rparr>))
      = CallbackResult
          \<lparr>success = True, error_type = None, payload = demo_order ''9'' ''canceling''\<rparr>"
  using cancelOrderId_checks_state [of demo_client
          "demo_world\<lparr>order_endpoint := \<lambda>k r. HttpOk (demo_order ''9'' ''filled'')\<rparr>"
          demo_modules "''9''" "demo_order ''9'' ''filled''"]
        cancelOrderId_checks_state [of demo_client
          "demo_world\<lparr>order_endpoint := \<lambda>k r. HttpOk (demo_order ''9'' ''canceled'')\<rparr>"
          demo_modules "''9''" "demo_order ''9'' ''canceled''"]
        cancelOrderId_checks_state [of demo_client
          "demo_world\<lparr>order_endpoint := \<lambda>k r. HttpOk (demo_order ''9'' ''canceling'')\<rparr>"
          demo_modules "''9''" "demo_order ''9'' ''canceling''"]
  by (simp add: demo_client_simps demo_order_simps)

section \<open>Polling an order's state\<close>

text \<open>
  Claim C10. Given an envelope whose success flag is false, \<^verbatim>\<open>pollOrderState\<close> calls
  back at once with a null error and that same envelope as the result, and does nothing
  else: the failure arrives in the result position.
\<close>

theorem failed_envelope_in_result_position:
  "\<not> success env \<Longrightarrow> pollOrderState M c env status w = Some (CallbackResult env, w)"
  by (simp add: pollOrderState_def getOrderState.simps)

text \<open>The envelope of a rejected cancellation, polled for \<^verbatim>\<open>traded\<close>.\<close>

theorem failed_envelope_in_result_position_witness:
  "\<not> success \<lparr>success = False, error_type = Some ''order_not_valid_for_canceling'',
                payload = demo_order ''9'' ''filled''\<rparr>
   \<and> pollOrderState demo_modules demo_client
        \<lparr>success = False, error_type = Some ''order_not_valid_for_canceling'',
          payload = demo_order ''9'' ''filled''\<rparr> ''traded'' demo_world
      = Some (CallbackResult
          \<lparr>success = False, error_type = Some ''order_not_valid_for_canceling'',
            payload = demo_order ''9'' ''filled''\<rparr>, demo_world)"
  using failed_envelope_in_result_position [of
          "\<lparr>success = False, error_type = Some ''order_not_valid_for_canceling'',
            payload = demo_order ''9'' ''filled''\<rparr>" demo_modules demo_client "''traded''"
          demo_world]
  by simp

text \<open>
  Claim C6. \<^verbatim>\<open>pollOrderState\<close> calls back with the envelope it was given, sending
  nothing, when that envelope is a failure or its order is already in the target state.
  Otherwise it fetches the order by its id, and when the fetch succeeds it waits 500 and
  continues with the envelope just fetched. So when the first fetch reports the target state
  the poll returns that envelope after exactly one request and one wait of 500.
\<close>

theorem pollOrderState_steps:
  "((\<not> success env \<or> state (payload env) = status) \<longrightarrow>
      pollOrderState M c env status w = Some (CallbackResult env, w))
   \<and> (success env \<and> state (payload env) \<noteq> status \<and> secret c \<noteq> ''''
       \<and> order_endpoint w (length (requests w))
            (getOrderId_request M c (order_id (payload env)) w) = HttpOk ord
      \<longrightarrow> pollOrderState M c env status w =
            pollOrderState M c (responseHandler_success ord) status
              (setTimeout 500 (after_request
                 (getOrderId_request M c (order_id (payload env)) w) w)))
   \<and> (success env \<and> state (payload env) \<noteq> status \<and> secret c \<noteq> ''''
       \<and> order_endpoint w (length (requests w))
            (getOrderId_request M c (order_id (payload env)) w) = HttpOk ord
       \<and> state ord = status
      \<longrightarrow> pollOrderState M c env status w =
            Some (CallbackResult (responseHandler_success ord),
              w\<lparr>clock_reads := Suc (clock_reads w),
                events := events w @
                  [Sent (getOrderId_request M c (order_id (payload env)) w), Timeout 500]\<rparr>))"
proof -
  have stop: "\<And>e v. (\<not> success e \<or> state (payload e) = status) \<Longrightarrow>
      pollOrderState M c e status v = Some (CallbackResult e, v)"
    by (auto simp: pollOrderState_def getOrderState.simps)
  have step: "pollOrderState M c env status w =
            pollOrderState M c (responseHandler_success ord) status
              (setTimeout 500 (after_request
                 (getOrderId_request M c (order_id (payload env)) w) w))"
    if "success env" "state (payload env) \<noteq> status" "secret c \<noteq> ''''"
       "order_endpoint w (length (requests w))
            (getOrderId_request M c (order_id (payload env)) w) = HttpOk ord"
    using that
    by (subst pollOrderState_def, subst getOrderState.simps)
       (simp add: getOrderId_run end_handler_def pollOrderState_def)
  have fin: "pollOrderState M c (responseHandler_success ord) status v
                = Some (CallbackResult (responseHandler_success ord), v)"
    if "state ord = status" for v
    using that stop [of "responseHandler_success ord" v]
    by (simp add: responseHandler_success_def)
  show ?thesis
    using stop [of env w] step fin
    by (auto simp: setTimeout_def after_request_def)
qed

text \<open>An order already \<^verbatim>\<open>traded\<close>, and a \<^verbatim>\<open>pending\<close> order that the
  exchange reports as \<^verbatim>\<open>traded\<close> at the first fetch.\<close>

theorem pollOrderState_steps_witness:
  "state (payload (responseHandler_success (demo_order ''9'' ''traded''))) = ''traded''
   \<and> pollOrderState demo_modules demo_client
        (responseHandler_success (demo_order ''9'' ''traded'')) ''traded'' demo_world
      = Some (CallbackResult (responseHandler_success (demo_order ''9'' ''traded'')), demo_world)
   \<and> success (responseHandler_success (demo_order ''9'' ''pending''))
   \<and> state (payload (responseHandler_success (demo_order ''9'' ''pending''))) \<noteq> ''traded''
   \<and> secret demo_client \<noteq> ''''
   \<and> order_endpoint demo_world (length (requests demo_world))
        (getOrderId_request demo_modules demo_client ''9'' demo_world)
      = HttpOk (demo_order ''9'' ''traded'')
   \<and> pollOrderState demo_modules demo_client
          (responseHandler_success (demo_order ''9'' ''pending'')) ''traded'' demo_world
      = Some (CallbackResult (responseHandler_success (demo_order ''9'' ''traded'')),
              demo_world\<lparr>clock_reads := 1,
                events := [Sent (getOrderId_request demo_modules demo_client ''9'' demo_world),
                           Timeout 500]\<rparr>)"
  using pollOrderState_steps [of "responseHandler_success (demo_order ''9'' ''traded'')"
          "''traded''" demo_modules demo_client demo_world, THEN conjunct1]
        pollOrderState_steps [of "responseHandler_success (demo_order ''9'' ''pending'')"
          "''traded''" demo_modules demo_client demo_world "demo_order ''9'' ''traded''",
          THEN conjunct2, THEN conjunct2]
  by (simp add: responseHandler_success_def demo_order_simps demo_client_simps demo_world_simps)

section \<open>The order pager\<close>

subsection \<open>One turn of the loop\<close>

lemma getOrderPages_stop:
  "next_page (filterByState st env) (current_page (meta (payload env))) = None \<Longrightarrow>
   getOrderPages M c env marketId st w = (CallbackResult (filterByState st env), w)"
  by (subst getOrderPages.simps) (simp add: Let_def)

lemma getOrderPages_step:
  "next_page (filterByState st env) (current_page (meta (payload env))) = Some page' \<Longrightarrow>
   getOrdersRaw M c marketId page' w = (CallbackResult response, w') \<Longrightarrow>
   getOrderPages M c env marketId st w =
     getOrderPages M c (append_page (filterByState st env) response page') marketId st w'"
  by (subst getOrderPages.simps) (simp add: Let_def)

lemma getOrderPages_fail:
  "next_page (filterByState st env) (current_page (meta (payload env))) = Some page' \<Longrightarrow>
   getOrdersRaw M c marketId page' w = (out, w') \<Longrightarrow>
   \<forall>response. out \<noteq> CallbackResult response \<Longrightarrow>
   getOrderPages M c env marketId st w = (out, w')"
  by (subst getOrderPages.simps) (cases out; simp add: Let_def)

lemma next_page_none:
  "\<not> success env \<or>
     \<not> js_lt (current_page (meta (payload env))) (total_pages (meta (payload env))) \<Longrightarrow>
   next_page (filterByState st env) (current_page (meta (payload env))) = None"
  by (auto simp: next_page_def filterByState_def js_lt_def js_eq_def Let_def
           split: option.splits)

lemma next_page_some:
  "success env \<Longrightarrow> current_page (meta (payload env)) = Some p \<Longrightarrow>
   total_pages (meta (payload env)) = Some n \<Longrightarrow> p < n \<Longrightarrow>
   next_page (filterByState st env) (current_page (meta (payload env))) = Some (Suc p)"
  by (simp add: next_page_def filterByState_def js_lt_def js_eq_def Let_def)

text \<open>The pager calls back with what it has accumulated, sending nothing, as soon as the
  accumulator is a failure or its page number is not below \<^verbatim>\<open>total_pages\<close>.\<close>

lemma getOrderPages_returns_at_last_page:
  "\<not> success env \<or>
     \<not> js_lt (current_page (meta (payload env))) (total_pages (meta (payload env))) \<Longrightarrow>
   getOrderPages M c env marketId st w = (CallbackResult (filterByState st env), w)"
  by (rule getOrderPages_stop) (rule next_page_none)

subsection \<open>A listing whose every page fetch succeeds\<close>

lemma filterByState_success [simp]: "success (filterByState st env) = success env"
  by (simp add: filterByState_def Let_def)

lemma filterByState_orders:
  "success env \<Longrightarrow>
   orders (payload (filterByState st env)) =
     (if truthy st then filter (\<lambda>ord. Some (state ord) = st) (orders (payload env))
      else orders (payload env))"
  by (simp add: filterByState_def Let_def)

lemma filterByState_meta_before_last:
  "current_page (meta (payload env)) = Some p \<Longrightarrow> total_pages (meta (payload env)) = Some n \<Longrightarrow>
   p < n \<Longrightarrow> meta (payload (filterByState st env)) = meta (payload env)"
  by (simp add: filterByState_def Let_def js_eq_def)

lemma filterByState_meta_at_last:
  "success env \<Longrightarrow> truthy st \<Longrightarrow>
   current_page (meta (payload env)) = Some n \<Longrightarrow> total_pages (meta (payload env)) = Some n \<Longrightarrow>
   meta (payload (filterByState st env)) =
     \<lparr>current_page = None, total_pages = None,
      total_count = Some (length (filter (\<lambda>ord. Some (state ord) = st) (orders (payload env))))\<rparr>"
  by (simp add: filterByState_def Let_def js_eq_def)

lemma filterByState_falsy: "\<not> truthy st \<Longrightarrow> filterByState st env = env"
  by (simp add: filterByState_def)

lemma append_page_simps [simp]:
  "success (append_page env response page) = success env"
  "orders (payload (append_page env response page)) =
     orders (payload env) @ orders (payload response)"
  "meta (payload (append_page env response page)) =
     (meta (payload env))\<lparr>current_page := Some page\<rparr>"
  by (simp_all add: append_page_def)

lemma getOrdersRaw_request_simps [simp]:
  "verb (getOrdersRaw_request M c marketId page w) = Get"
  "url (getOrdersRaw_request M c marketId page w) = getFullUrl c (orders_path marketId page)"
  by (simp_all add: getOrdersRaw_request_def)

lemma getOrdersRaw_ok:
  "secret c \<noteq> '''' \<Longrightarrow>
   listing_endpoint w (length (requests w)) (getOrdersRaw_request M c marketId page w) = HttpOk l \<Longrightarrow>
   getOrdersRaw M c marketId page w =
     (CallbackResult (responseHandler_success l),
      after_request (getOrdersRaw_request M c marketId page w) w)"
  by (simp add: getOrdersRaw_run end_handler_def)

lemma getOrderPages_collects:
  assumes sec: "secret c \<noteq> ''''"
  shows "success env \<Longrightarrow> current_page (meta (payload env)) = Some p \<Longrightarrow>
    total_pages (meta (payload env)) = Some n \<Longrightarrow> p \<le> n \<Longrightarrow> length ls = n - p \<Longrightarrow>
    (\<forall>i < n - p. \<forall>r. listing_endpoint w (length (requests w) + i) r = HttpOk (ls ! i)) \<Longrightarrow>
    \<exists>res rs w'.
       getOrderPages M c env marketId st w = (CallbackResult res, w')
     \<and> success res
     \<and> orders (payload res) =
         (if truthy st
          then filter (\<lambda>ord. Some (state ord) = st) (orders (payload env) @ concat (map orders ls))
          else orders (payload env) @ concat (map orders ls))
     \<and> meta (payload res) =
         (if truthy st
          then \<lparr>current_page = None, total_pages = None,
                total_count = Some (length (filter (\<lambda>ord. Some (state ord) = st)
                  (orders (payload env) @ concat (map orders ls))))\<rparr>
          else (meta (payload env))\<lparr>current_page := Some n\<rparr>)
     \<and> events w' = events w @ map Sent rs
     \<and> clock_reads w' = clock_reads w + length rs
     \<and> map url rs = map (\<lambda>k. getFullUrl c (orders_path marketId k)) [Suc p..<Suc n]
     \<and> (\<forall>r \<in> set rs. verb r = Get)"
proof (induction ls arbitrary: env p w)
  case Nil
  then have pn: "p = n" by simp
  have none: "next_page (filterByState st env) (current_page (meta (payload env))) = None"
    using Nil.prems pn by (intro next_page_none) (simp add: js_lt_def)
  have run: "getOrderPages M c env marketId st w = (CallbackResult (filterByState st env), w)"
    using none by (rule getOrderPages_stop)
  have same: "(meta (payload env))\<lparr>current_page := Some n\<rparr> = meta (payload env)"
    using Nil.prems pn by (cases "meta (payload env)") simp
  have res:
    "orders (payload (filterByState st env)) =
       (if truthy st
        then filter (\<lambda>ord. Some (state ord) = st) (orders (payload env) @ concat (map orders []))
        else orders (payload env) @ concat (map orders []))"
    "meta (payload (filterByState st env)) =
       (if truthy st
        then \<lparr>current_page = None, total_pages = None,
              total_count = Some (length (filter (\<lambda>ord. Some (state ord) = st)
                (orders (payload env) @ concat (map orders []))))\<rparr>
        else (meta (payload env))\<lparr>current_page := Some n\<rparr>)"
    using Nil.prems pn same
    by (simp_all add: filterByState_orders filterByState_meta_at_last filterByState_falsy)
  show ?case
    apply (rule exI [of _ "filterByState st env"])
    apply (rule exI [of _ "[]"])
    apply (rule exI [of _ w])
    using run res Nil.prems pn by simp
next
  case (Cons l ls)
  let ?P = "\<lambda>ord. Some (state ord) = st"
  let ?rq = "getOrdersRaw_request M c marketId (Suc p) w"
  let ?w2 = "after_request ?rq w"
  let ?env2 = "append_page (filterByState st env) (responseHandler_success l) (Suc p)"
  from Cons.prems have lt: "p < n" by simp
  have np: "next_page (filterByState st env) (current_page (meta (payload env))) = Some (Suc p)"
    using Cons.prems lt by (intro next_page_some) simp_all
  have "listing_endpoint w (length (requests w) + 0) ?rq = HttpOk ((l # ls) ! 0)"
    using Cons.prems(6) lt by (metis zero_less_diff)
  then have raw: "getOrdersRaw M c marketId (Suc p) w =
      (CallbackResult (responseHandler_success l), ?w2)"
    using sec by (simp add: getOrdersRaw_ok)
  have step: "getOrderPages M c env marketId st w = getOrderPages M c ?env2 marketId st ?w2"
    using np raw by (rule getOrderPages_step)
  have mid: "meta (payload (filterByState st env)) = meta (payload env)"
    using Cons.prems lt by (intro filterByState_meta_before_last) simp_all
  have e1: "success ?env2" using Cons.prems by simp
  have e2: "current_page (meta (payload ?env2)) = Some (Suc p)" by simp
  have e3: "total_pages (meta (payload ?env2)) = Some n"
    using Cons.prems mid by simp
  have e4: "Suc p \<le> n" using lt by simp
  have e5: "length ls = n - Suc p" using Cons.prems by simp
  have e6: "\<forall>i < n - Suc p. \<forall>r.
      listing_endpoint ?w2 (length (requests ?w2) + i) r = HttpOk (ls ! i)"
  proof (intro allI impI)
    fix i r
    assume "i < n - Suc p"
    then have "Suc i < n - p" by simp
    with Cons.prems(6)
    have "listing_endpoint w (length (requests w) + Suc i) r = HttpOk ((l # ls) ! Suc i)"
      by blast
    then show "listing_endpoint ?w2 (length (requests ?w2) + i) r = HttpOk (ls ! i)"
      by simp
  qed
  from Cons.IH [OF e1 e2 e3 e4 e5 e6]
  obtain res rs w' where
        run: "getOrderPages M c ?env2 marketId st ?w2 = (CallbackResult res, w')"
    and ok: "success res"
    and ords: "orders (payload res) =
         (if truthy st
          then filter ?P (orders (payload ?env2) @ concat (map orders ls))
          else orders (payload ?env2) @ concat (map orders ls))"
    and mt: "meta (payload res) =
         (if truthy st
          then \<lparr>current_page = None, total_pages = None,
                total_count = Some (length (filter ?P
                  (orders (payload ?env2) @ concat (map orders ls))))\<rparr>
          else (meta (payload ?env2))\<lparr>current_page := Some n\<rparr>)"
    and ev: "events w' = events ?w2 @ map Sent rs"
    and cl: "clock_reads w' = clock_reads ?w2 + length rs"
    and urls: "map url rs = map (\<lambda>k. getFullUrl c (orders_path marketId k)) [Suc (Suc p)..<Suc n]"
    and verbs: "\<forall>r \<in> set rs. verb r = Get"
    by blast
  have acc: "(if truthy st
          then filter ?P (orders (payload ?env2) @ concat (map orders ls))
          else orders (payload ?env2) @ concat (map orders ls))
       = (if truthy st
          then filter ?P (orders (payload env) @ concat (map orders (l # ls)))
          else orders (payload env) @ concat (map orders (l # ls)))"
    using Cons.prems(1) by (simp add: filterByState_orders responseHandler_success_def)
  have mt2: "(meta (payload ?env2))\<lparr>current_page := Some n\<rparr>
       = (meta (payload env))\<lparr>current_page := Some n\<rparr>"
    using mid by simp
  have upt: "[Suc p..<Suc n] = Suc p # [Suc (Suc p)..<Suc n]"
    using lt by (simp add: upt_conv_Cons)
  have o': "orders (payload res) =
         (if truthy st
          then filter ?P (orders (payload env) @ concat (map orders (l # ls)))
          else orders (payload env) @ concat (map orders (l # ls)))"
    using ords acc by simp
  have m': "meta (payload res) =
         (if truthy st
          then \<lparr>current_page = None, total_pages = None,
                total_count = Some (length (filter ?P
                  (orders (payload env) @ concat (map orders (l # ls)))))\<rparr>
          else (meta (payload env))\<lparr>current_page := Some n\<rparr>)"
  proof (cases "truthy st")
    case True
    with acc have fa: "filter ?P (orders (payload ?env2) @ concat (map orders ls))
        = filter ?P (orders (payload env) @ concat (map orders (l # ls)))"
      by (simp only: if_True)
    from mt True show ?thesis
      by (simp only: if_True fa)
  next
    case False
    with mt mt2 show ?thesis by simp
  qed
  have ev': "events w' = events w @ map Sent (?rq # rs)"
    using ev by simp
  have cl': "clock_reads w' = clock_reads w + length (?rq # rs)"
    using cl by simp
  have urls': "map url (?rq # rs) =
      map (\<lambda>k. getFullUrl c (orders_path marketId k)) [Suc p..<Suc n]"
    using urls upt by simp
  have verbs': "\<forall>r \<in> set (?rq # rs). verb r = Get"
    using verbs by simp
  from step run ok o' m' ev' cl' urls' verbs' show ?case
    by (intro exI [of _ res] exI [of _ "?rq # rs"] exI [of _ w']) simp
qed

lemma requests_events_append:
  "events w' = events w @ map Sent rs \<Longrightarrow> requests w' = requests w @ rs"
  by (simp add: requests_def comp_def)

lemma getOrdersByState_collects:
  assumes sec: "secret c \<noteq> ''''"
      and ne: "ls \<noteq> []"
      and cur: "current_page (meta (hd ls)) = Some p"
      and tot: "total_pages (meta (hd ls)) = Some n"
      and pn: "p \<le> n"
      and len: "length ls = Suc (n - p)"
      and ok: "\<forall>i < length ls. \<forall>r.
                 listing_endpoint w (length (requests w) + i) r = HttpOk (ls ! i)"
  shows "\<exists>res rs w'.
       getOrdersByState M c marketId st w = (CallbackResult res, w')
     \<and> success res
     \<and> orders (payload res) =
         (if truthy st
          then filter (\<lambda>ord. Some (state ord) = st) (concat (map orders ls))
          else concat (map orders ls))
     \<and> meta (payload res) =
         (if truthy st
          then \<lparr>current_page = None, total_pages = None,
                total_count = Some (length (filter (\<lambda>ord. Some (state ord) = st)
                  (concat (map orders ls))))\<rparr>
          else (meta (hd ls))\<lparr>current_page := Some n\<rparr>)
     \<and> events w' = events w @ map Sent rs
     \<and> map url rs = map (\<lambda>k. getFullUrl c (orders_path marketId k)) (0 # [Suc p..<Suc n])
     \<and> (\<forall>r \<in> set rs. verb r = Get)"
proof -
  from ne obtain l ls' where ls: "ls = l # ls'" by (cases ls) auto
  let ?rq = "getOrdersRaw_request M c marketId 0 w"
  let ?w1 = "after_request ?rq w"
  let ?env = "responseHandler_success l"
  have "listing_endpoint w (length (requests w) + 0) ?rq = HttpOk (ls ! 0)"
    using ok ne by blast
  then have raw: "getOrdersRaw M c marketId 0 w = (CallbackResult ?env, ?w1)"
    using sec by (simp add: getOrdersRaw_ok ls)
  have start: "getOrdersByState M c marketId st w = getOrderPages M c ?env marketId st ?w1"
    by (simp add: getOrdersByState_def raw pollOrders_def)
  have e1: "success ?env" by (simp add: responseHandler_success_def)
  have e2: "current_page (meta (payload ?env)) = Some p"
    using cur by (simp add: responseHandler_success_def ls)
  have e3: "total_pages (meta (payload ?env)) = Some n"
    using tot by (simp add: responseHandler_success_def ls)
  have e5: "length ls' = n - p" using len by (simp add: ls)
  have e6: "\<forall>i < n - p. \<forall>r.
      listing_endpoint ?w1 (length (requests ?w1) + i) r = HttpOk (ls' ! i)"
  proof (intro allI impI)
    fix i r
    assume "i < n - p"
    then have "Suc i < length ls" using len by simp
    with ok have "listing_endpoint w (length (requests w) + Suc i) r = HttpOk (ls ! Suc i)"
      by blast
    then show "listing_endpoint ?w1 (length (requests ?w1) + i) r = HttpOk (ls' ! i)"
      by (simp add: ls)
  qed
  from getOrderPages_collects [OF sec e1 e2 e3 pn e5 e6, of M marketId st]
  obtain res rs w' where
        run: "getOrderPages M c ?env marketId st ?w1 = (CallbackResult res, w')"
    and sc: "success res"
    and ords: "orders (payload res) =
         (if truthy st
          then filter (\<lambda>ord. Some (state ord) = st)
                 (orders (payload ?env) @ concat (map orders ls'))
          else orders (payload ?env) @ concat (map orders ls'))"
    and mt: "meta (payload res) =
         (if truthy st
          then \<lparr>current_page = None, total_pages = None,
                total_count = Some (length (filter (\<lambda>ord. Some (state ord) = st)
                  (orders (payload ?env) @ concat (map orders ls'))))\<rparr>
          else (meta (payload ?env))\<lparr>current_page := Some n\<rparr>)"
    and ev: "events w' = events ?w1 @ map Sent rs"
    and urls: "map url rs = map (\<lambda>k. getFullUrl c (orders_path marketId k)) [Suc p..<Suc n]"
    and verbs: "\<forall>r \<in> set rs. verb r = Get"
    by blast
  have all: "orders (payload ?env) @ concat (map orders ls') = concat (map orders ls)"
    by (simp add: responseHandler_success_def ls)
  have hd: "meta (payload ?env) = meta (hd ls)"
    by (simp add: responseHandler_success_def ls)
  have ev': "events w' = events w @ map Sent (?rq # rs)"
    using ev by simp
  have urls': "map url (?rq # rs) =
      map (\<lambda>k. getFullUrl c (orders_path marketId k)) (0 # [Suc p..<Suc n])"
    using urls by simp
  have verbs': "\<forall>r \<in> set (?rq # rs). verb r = Get"
    using verbs by simp
  from start run sc ords [unfolded all] mt [unfolded all hd] ev' urls' verbs' show ?thesis
    by (intro exI [of _ res] exI [of _ "?rq # rs"] exI [of _ w']) simp
qed

text \<open>
  Claim C4, as the code has it. The first request carries no page number, and the pager then
  asks for the pages after the one the first answer reports, up to \<^verbatim>\<open>total_pages\<close>.
  So when the exchange numbers its pages from 1 and answers the i-th request with the i-th of
  N pages (N at least 1), the full-listing fetch sends exactly N requests (the first without
  a page number, then pages 2 to N) and returns a success envelope. Without a state filter
  its orders are the concatenation of all pages' orders in their original order; with a
  state filter they are exactly the orders of that concatenation whose state equals the
  filter, and \<^verbatim>\<open>meta.total_count\<close> is the number of those orders.
  \<^verbatim>\<open>getOrders\<close> is the fetch without a filter.
\<close>

theorem getOrders_fetches_every_page:
  assumes "secret c \<noteq> ''''"
      and "ls \<noteq> []"
      and "current_page (meta (hd ls)) = Some 1"
      and "total_pages (meta (hd ls)) = Some (length ls)"
      and "\<forall>i < length ls. \<forall>r.
             listing_endpoint w (length (requests w) + i) r = HttpOk (ls ! i)"
  shows "getOrders M c marketId w = getOrdersByState M c marketId None w
     \<and> (\<exists>res rs w'.
         getOrdersByState M c marketId st w = (CallbackResult res, w')
       \<and> success res
       \<and> events w' = events w @ map Sent rs
       \<and> length rs = length ls
       \<and> map url rs =
           map (\<lambda>k. getFullUrl c (orders_path marketId k)) (0 # [2..<Suc (length ls)])
       \<and> (\<forall>r \<in> set rs. verb r = Get)
       \<and> (\<not> truthy st \<longrightarrow> orders (payload res) = concat (map orders ls))
       \<and> (truthy st \<longrightarrow>
            orders (payload res) =
              filter (\<lambda>ord. Some (state ord) = st) (concat (map orders ls))
          \<and> total_count (meta (payload res)) =
              Some (length (filter (\<lambda>ord. Some (state ord) = st) (concat (map orders ls))))))"
proof -
  from assms(2) have pos: "1 \<le> length ls" "length ls = Suc (length ls - 1)"
    by (cases ls; simp)+
  from getOrdersByState_collects [OF assms(1-4) pos assms(5), of M marketId st]
  obtain res rs w' where
        run: "getOrdersByState M c marketId st w = (CallbackResult res, w')"
    and sc: "success res"
    and ords: "orders (payload res) =
         (if truthy st
          then filter (\<lambda>ord. Some (state ord) = st) (concat (map orders ls))
          else concat (map orders ls))"
    and mt: "meta (payload res) =
         (if truthy st
          then \<lparr>current_page = None, total_pages = None,
                total_count = Some (length (filter (\<lambda>ord. Some (state ord) = st)
                  (concat (map orders ls))))\<rparr>
          else (meta (hd ls))\<lparr>current_page := Some (length ls)\<rparr>)"
    and ev: "events w' = events w @ map Sent rs"
    and urls: "map url rs =
         map (\<lambda>k. getFullUrl c (orders_path marketId k)) (0 # [Suc 1..<Suc (length ls)])"
    and verbs: "\<forall>r \<in> set rs. verb r = Get"
    by blast
  have "length (map url rs) = length (0 # [Suc 1..<Suc (length ls)])"
    by (simp only: urls length_map)
  also have "\<dots> = length ls"
    using pos(1) by auto
  finally have n: "length rs = length ls" by simp
  have urls2: "map url rs =
         map (\<lambda>k. getFullUrl c (orders_path marketId k)) (0 # [2..<Suc (length ls)])"
    using urls by (simp add: numeral_2_eq_2)
  have unfiltered: "\<not> truthy st \<longrightarrow> orders (payload res) = concat (map orders ls)"
    using ords by simp
  have filtered: "truthy st \<longrightarrow>
            orders (payload res) =
              filter (\<lambda>ord. Some (state ord) = st) (concat (map orders ls))
          \<and> total_count (meta (payload res)) =
              Some (length (filter (\<lambda>ord. Some (state ord) = st) (concat (map orders ls))))"
    using ords mt by simp
  have "getOrders M c marketId w = getOrdersByState M c marketId None w"
    by (simp add: getOrders_def getOrdersByState_def)
  with run sc ev n urls2 verbs unfiltered filtered show ?thesis
    by blast
qed

lemma demo_pages_facts:
  "demo_pages \<noteq> []"
  "length demo_pages = 3"
  "current_page (meta (hd demo_pages)) = Some 1"
  "total_pages (meta (hd demo_pages)) = Some 3"
  "concat (map orders demo_pages) =
     [demo_order ''1'' ''traded'', demo_order ''2'' ''pending'', demo_order ''3'' ''pending'',
      demo_order ''4'' ''traded'', demo_order ''5'' ''traded'']"
  by (simp_all add: demo_pages_def)

lemma demo_world_requests: "requests demo_world = []"
  by (simp add: requests_def demo_world_simps)

lemma demo_listing_pages:
  "\<forall>i < length demo_pages. \<forall>r.
     listing_endpoint demo_world (length (requests demo_world) + i) r = HttpOk (demo_pages ! i)"
  by (simp add: demo_world_requests demo_world_simps demo_pages_facts)

lemma demo_orders_urls:
  "map (\<lambda>k. getFullUrl demo_client (orders_path ''btc-clp'' k)) (0 # [2..<Suc 3]) =
     [''https://surbtc.com/api/v1/markets/btc-clp/orders'',
      ''https://surbtc.com/api/v1/markets/btc-clp/orders?page=2'',
      ''https://surbtc.com/api/v1/markets/btc-clp/orders?page=3'']"
  by (simp add: getFullUrl_def orders_path_def demo_client_simps string_of_nat.simps
        upt_conv_Cons)

text \<open>The three-page listing numbered from 1: three requests; filtered by
  \<^verbatim>\<open>traded\<close> the three traded orders with a count of 3, unfiltered all five orders in
  page order.\<close>

theorem getOrders_fetches_every_page_witness:
  "secret demo_client \<noteq> '''' \<and> demo_pages \<noteq> []
   \<and> current_page (meta (hd demo_pages)) = Some 1
   \<and> total_pages (meta (hd demo_pages)) = Some (length demo_pages)
   \<and> (\<exists>res rs w'.
         getOrdersByState demo_modules demo_client ''btc-clp'' (Some ''traded'') demo_world
           = (CallbackResult res, w')
       \<and> events w' = map Sent rs
       \<and> length rs = 3
       \<and> map url rs =
           [''https://surbtc.com/api/v1/markets/btc-clp/orders'',
            ''https://surbtc.com/api/v1/markets/btc-clp/orders?page=2'',
            ''https://surbtc.com/api/v1/markets/btc-clp/orders?page=3'']
       \<and> orders (payload res) =
           [demo_order ''1'' ''traded'', demo_order ''4'' ''traded'', demo_order ''5'' ''traded'']
       \<and> total_count (meta (payload res)) = Some 3)
   \<and> (\<exists>res rs w'.
         getOrders demo_modules demo_client ''btc-clp'' demo_world = (CallbackResult res, w')
       \<and> events w' = map Sent rs
       \<and> length rs = 3
       \<and> orders (payload res) =
           [demo_order ''1'' ''traded'', demo_order ''2'' ''pending'',
            demo_order ''3'' ''pending'', demo_order ''4'' ''traded'',
            demo_order ''5'' ''traded''])"
proof -
  have sec: "secret demo_client \<noteq> ''''" by (simp add: demo_client_simps)
  have tot: "total_pages (meta (hd demo_pages)) = Some (length demo_pages)"
    by (simp add: demo_pages_facts)
  note run = getOrders_fetches_every_page
               [OF sec demo_pages_facts(1) demo_pages_facts(3) tot demo_listing_pages]
  have traded: "truthy (Some ''traded'')" by (simp add: truthy_def)
  have none: "\<not> truthy None" by (simp add: truthy_def)
  from run [of demo_modules "''btc-clp''" "Some ''traded''", THEN conjunct2] traded
  obtain res rs w' where
        a: "getOrdersByState demo_modules demo_client ''btc-clp'' (Some ''traded'') demo_world
              = (CallbackResult res, w')"
    and b: "events w' = events demo_world @ map Sent rs"
    and c: "length rs = length demo_pages"
    and d: "map url rs =
              map (\<lambda>k. getFullUrl demo_client (orders_path ''btc-clp'' k))
                (0 # [2..<Suc (length demo_pages)])"
    and e: "orders (payload res) =
              filter (\<lambda>ord. Some (state ord) = Some ''traded'') (concat (map orders demo_pages))"
    and f: "total_count (meta (payload res)) =
              Some (length (filter (\<lambda>ord. Some (state ord) = Some ''traded'')
                (concat (map orders demo_pages))))"
    by blast
  have b': "events w' = map Sent rs" using b by (simp add: demo_world_simps)
  have c': "length rs = 3" using c by (simp add: demo_pages_facts)
  note d' = d [unfolded demo_pages_facts(2) demo_orders_urls]
  have e': "orders (payload res) =
      [demo_order ''1'' ''traded'', demo_order ''4'' ''traded'', demo_order ''5'' ''traded'']"
    using e by (simp add: demo_pages_facts demo_order_simps)
  have f': "total_count (meta (payload res)) = Some 3"
    using f by (simp add: demo_pages_facts demo_order_simps)
  from a b' c' d' e' f' have filtered: "\<exists>res rs w'.
         getOrdersByState demo_modules demo_client ''btc-clp'' (Some ''traded'') demo_world
           = (CallbackResult res, w')
       \<and> events w' = map Sent rs
       \<and> length rs = 3
       \<and> map url rs =
           [''https://surbtc.com/api/v1/markets/btc-clp/orders'',
            ''https://surbtc.com/api/v1/markets/btc-clp/orders?page=2'',
            ''https://surbtc.com/api/v1/markets/btc-clp/orders?page=3'']
       \<and> orders (payload res) =
           [demo_order ''1'' ''traded'', demo_order ''4'' ''traded'', demo_order ''5'' ''traded'']
       \<and> total_count (meta (payload res)) = Some 3"
    by (intro exI [of _ res] exI [of _ rs] exI [of _ w'] conjI) assumption+
  from run [of demo_modules "''btc-clp''" None] none
  obtain res0 rs0 w0 where
        a0: "getOrders demo_modules demo_client ''btc-clp'' demo_world = (CallbackResult res0, w0)"
    and b0: "events w0 = events demo_world @ map Sent rs0"
    and c0: "length rs0 = length demo_pages"
    and e0: "orders (payload res0) = concat (map orders demo_pages)"
    by auto
  have b0': "events w0 = map Sent rs0" using b0 by (simp add: demo_world_simps)
  have c0': "length rs0 = 3" using c0 by (simp add: demo_pages_facts)
  note e0' = e0 [unfolded demo_pages_facts(5)]
  from a0 b0' c0' e0' have unfiltered: "\<exists>res rs w'.
         getOrders demo_modules demo_client ''btc-clp'' demo_world = (CallbackResult res, w')
       \<and> events w' = map Sent rs
       \<and> length rs = 3
       \<and> orders (payload res) =
           [demo_order ''1'' ''traded'', demo_order ''2'' ''pending'',
            demo_order ''3'' ''pending'', demo_order ''4'' ''traded'',
            demo_order ''5'' ''traded'']"
    by (intro exI [of _ res0] exI [of _ rs0] exI [of _ w0] conjI) assumption+
  from sec demo_pages_facts(1) demo_pages_facts(3) tot filtered unfiltered show ?thesis
    by blast
qed

lemma zero_based_world_simps:
  "listing_endpoint zero_based_world k r =
     HttpOk \<lparr>orders = [demo_order ''1'' ''traded''],
             meta = \<lparr>current_page = Some 0, total_pages = Some 1, total_count = Some 1\<rparr>\<rparr>"
  "events zero_based_world = []"
  "requests zero_based_world = []"
  by (simp_all add: zero_based_world_def demo_world_def requests_def)

text \<open>Claim C4 as stated promises exactly N requests for a listing of N pages. An exchange
  that answers every fetch, reports one page in total and numbers it 0 is asked twice: once
  without a page number and once for page 1.\<close>

theorem getOrders_zero_based_counterexample:
  "map url (requests (snd (getOrders demo_modules demo_client ''btc-clp'' zero_based_world)))
     = [''https://surbtc.com/api/v1/markets/btc-clp/orders'',
        ''https://surbtc.com/api/v1/markets/btc-clp/orders?page=1'']
   \<and> length (requests (snd (getOrders demo_modules demo_client ''btc-clp'' zero_based_world)))
     = 2"
proof -
  let ?pg = "\<lparr>orders = [demo_order ''1'' ''traded''],
              meta = \<lparr>current_page = Some 0, total_pages = Some 1, total_count = Some 1\<rparr>\<rparr>"
  have sec: "secret demo_client \<noteq> ''''" by (simp add: demo_client_simps)
  have ok: "\<forall>i < length [?pg, ?pg]. \<forall>r.
      listing_endpoint zero_based_world (length (requests zero_based_world) + i) r
        = HttpOk ([?pg, ?pg] ! i)"
    by (simp add: zero_based_world_simps less_Suc_eq)
  have hyps: "[?pg, ?pg] \<noteq> []" "current_page (meta (hd [?pg, ?pg])) = Some 0"
    "total_pages (meta (hd [?pg, ?pg])) = Some 1" "(0::nat) \<le> 1"
    "length [?pg, ?pg] = Suc (1 - 0)"
    by simp_all
  from getOrdersByState_collects
         [OF sec hyps ok, of demo_modules "''btc-clp''" None]
  obtain res rs w' where
        run: "getOrdersByState demo_modules demo_client ''btc-clp'' None zero_based_world
                = (CallbackResult res, w')"
    and ev: "events w' = events zero_based_world @ map Sent rs"
    and urls: "map url rs =
         map (\<lambda>k. getFullUrl demo_client (orders_path ''btc-clp'' k)) (0 # [Suc 0..<Suc 1])"
    by blast
  have rq: "requests w' = rs"
    using requests_events_append [OF ev] by (simp add: zero_based_world_simps)
  have w': "snd (getOrders demo_modules demo_client ''btc-clp'' zero_based_world) = w'"
    by (simp add: getOrders_def getOrdersByState_def [symmetric] run)
  have u: "map url rs =
      [''https://surbtc.com/api/v1/markets/btc-clp/orders'',
       ''https://surbtc.com/api/v1/markets/btc-clp/orders?page=1'']"
    using urls
    by (simp add: getFullUrl_def orders_path_def demo_client_simps string_of_nat.simps)
  have "length rs = 2"
    using arg_cong [OF u, of length] by simp
  with u w' rq show ?thesis by simp
qed

section \<open>Bitcoin withdrawals\<close>

lemma withdrawalOpts_btc:
  "toUpper M (w_currency opts) = ''BTC'' \<Longrightarrow>
   withdrawalOpts M c opts =
     (if address_rejected M c (w_target_address opts) then None
      else Some (Obj
        [(''withdrawal_data'', Obj [(''target_address'', Str (w_target_address opts))]),
         (''amount'', Num (toSatoshi M (w_amount opts))),
         (''currency'', Str ''BTC'')]))"
  by (simp add: withdrawalOpts_def Let_def)

text \<open>Where \<^verbatim>\<open>stg\<close> occurs in the API URL after its first character the address is
  checked against the test network, and where it does not occur against the main network:
  a rejected address ends the call with \<^verbatim>\<open>InvalidRequest:InvalidBitcoinAddress\<close> and
  nothing is sent; an accepted one is sent on with the amount in satoshis.\<close>

lemma requestWithdrawal_btc_checked:
  assumes btc: "toUpper M (w_currency opts) = ''BTC''"
      and pos: "indexOf (api c) ''stg'' \<noteq> 0"
      and net: "net = (if indexOf (api c) ''stg'' > 0 then ''testnet'' else ''prod'')"
  shows "(\<not> validate M (w_target_address opts) net \<longrightarrow>
            requestWithdrawal M c opts w = (CallbackError invalidBitcoinAddress, w))
       \<and> (validate M (w_target_address opts) net \<and> secret c \<noteq> '''' \<longrightarrow>
            requestWithdrawal M c opts w =
              (end_handler (json_endpoint w (length (requests w))
                 (requestWithdrawal_request M c
                    (Obj [(''withdrawal_data'',
                            Obj [(''target_address'', Str (w_target_address opts))]),
                          (''amount'', Num (toSatoshi M (w_amount opts))),
                          (''currency'', Str ''BTC'')]) w)),
               after_request
                 (requestWithdrawal_request M c
                    (Obj [(''withdrawal_data'',
                            Obj [(''target_address'', Str (w_target_address opts))]),
                          (''amount'', Num (toSatoshi M (w_amount opts))),
                          (''currency'', Str ''BTC'')]) w) w))"
proof (intro conjI impI)
  assume "\<not> validate M (w_target_address opts) net"
  with pos net have "address_rejected M c (w_target_address opts)"
    by (cases "indexOf (api c) ''stg'' > 0") (simp_all add: address_rejected_def)
  with btc show "requestWithdrawal M c opts w = (CallbackError invalidBitcoinAddress, w)"
    by (simp add: requestWithdrawal_def withdrawalOpts_btc)
next
  assume ok: "validate M (w_target_address opts) net \<and> secret c \<noteq> ''''"
  with net have "\<not> address_rejected M c (w_target_address opts)"
    by (cases "indexOf (api c) ''stg'' > 0") (simp_all add: address_rejected_def)
  with btc have "withdrawalOpts M c opts = Some (Obj
        [(''withdrawal_data'', Obj [(''target_address'', Str (w_target_address opts))]),
         (''amount'', Num (toSatoshi M (w_amount opts))),
         (''currency'', Str ''BTC'')])"
    by (simp add: withdrawalOpts_btc)
  with ok show "requestWithdrawal M c opts w =
              (end_handler (json_endpoint w (length (requests w))
                 (requestWithdrawal_request M c
                    (Obj [(''withdrawal_data'',
                            Obj [(''target_address'', Str (w_target_address opts))]),
                          (''amount'', Num (toSatoshi M (w_amount opts))),
                          (''currency'', Str ''BTC'')]) w)),
               after_request
                 (requestWithdrawal_request M c
                    (Obj [(''withdrawal_data'',
                            Obj [(''target_address'', Str (w_target_address opts))]),
                          (''amount'', Num (toSatoshi M (w_amount opts))),
                          (''currency'', Str ''BTC'')]) w) w)"
    by (simp add: requestWithdrawal_run)
qed

lemma stg_client_simps:
  "api stg_client = ''stg.surbtc.com/api/v2''"
  "secret stg_client = ''s''"
  by (simp_all add: stg_client_def demo_client_def)

lemma indexOf_stg_client: "indexOf (api stg_client) ''stg'' = 0"
  by (simp add: stg_client_simps indexOf_def)

text \<open>
  Claim C8 at an API URL that begins with \<^verbatim>\<open>stg\<close>. The position of \<^verbatim>\<open>stg\<close>
  is 0, which is neither greater than 0 nor less than 0, so neither network's rules are
  applied: an address that both networks reject is not rejected, and the withdrawal is sent
  to the exchange.
\<close>

theorem requestWithdrawal_stg_prefix_unchecked:
  "indexOf (api stg_client) ''stg'' = 0
   \<and> validate demo_modules ''bogus'' ''testnet'' = False
   \<and> validate demo_modules ''bogus'' ''prod'' = False
   \<and> requestWithdrawal demo_modules stg_client
        \<lparr>w_currency = ''BTC'', w_target_address = ''bogus'', w_amount = 1\<rparr> demo_world
      = (CallbackResult \<lparr>success = True, error_type = None, payload = Null\<rparr>,
         after_request
           (requestWithdrawal_request demo_modules stg_client
              (Obj [(''withdrawal_data'', Obj [(''target_address'', Str ''bogus'')]),
                    (''amount'', Num 100000000),
                    (''currency'', Str ''BTC'')]) demo_world)
           demo_world)
   \<and> events (snd (requestWithdrawal demo_modules stg_client
        \<lparr>w_currency = ''BTC'', w_target_address = ''bogus'', w_amount = 1\<rparr> demo_world))
      = [Sent (requestWithdrawal_request demo_modules stg_client
              (Obj [(''withdrawal_data'', Obj [(''target_address'', Str ''bogus'')]),
                    (''amount'', Num 100000000),
                    (''currency'', Str ''BTC'')]) demo_world)]"
proof -
  have up: "demo_upper ''BTC'' = ''BTC''"
    by (simp add: demo_upper_def)
  have body: "withdrawalOpts demo_modules stg_client
        \<lparr>w_currency = ''BTC'', w_target_address = ''bogus'', w_amount = 1\<rparr>
      = Some (Obj [(''withdrawal_data'', Obj [(''target_address'', Str ''bogus'')]),
                   (''amount'', Num 100000000),
                   (''currency'', Str ''BTC'')])"
    by (simp add: withdrawalOpts_btc up address_rejected_def indexOf_stg_client
          demo_modules_simps)
  have run: "requestWithdrawal demo_modules stg_client
        \<lparr>w_currency = ''BTC'', w_target_address = ''bogus'', w_amount = 1\<rparr> demo_world
      = (CallbackResult \<lparr>success = True, error_type = None, payload = Null\<rparr>,
         after_request
           (requestWithdrawal_request demo_modules stg_client
              (Obj [(''withdrawal_data'', Obj [(''target_address'', Str ''bogus'')]),
                    (''amount'', Num 100000000),
                    (''currency'', Str ''BTC'')]) demo_world)
           demo_world)"
    using requestWithdrawal_run [OF _ body, of demo_world]
    by (simp add: stg_client_simps demo_world_simps end_handler_def
          responseHandler_success_def)
  show ?thesis
    by (simp add: indexOf_stg_client demo_modules_simps run demo_world_simps)
qed

section \<open>What the two revisions of \<^verbatim>\<open>cancelOrderId\<close> sign\<close>









section \<open>The order pager when a page fetch does not succeed\<close>

lemma end_handler_not_ok:
  "\<forall>b. rp \<noteq> HttpOk b \<Longrightarrow> \<forall>response. end_handler rp \<noteq> CallbackResult response"
  by (cases rp) (simp_all add: end_handler_def)

text \<open>
  The pager at page \<open>p\<close> of \<open>n\<close>, on an exchange that answers the next \<open>length ls\<close> page
  fetches with the pages \<open>ls\<close> and the fetch after them with anything but a page, where that
  fetch is still one the pager makes (\<open>p + length ls < n\<close>). The pager ends with the outcome
  of that fetch and with nothing of what it has accumulated. It has sent the requests for
  pages \<open>p + 1\<close> to \<open>p + length ls + 1\<close>, one each, the last of them being the fetch that did
  not succeed: that fetch is not repeated and nothing is sent after it.
\<close>

lemma getOrderPages_stops_at_first_failure:
  assumes sec: "secret c \<noteq> ''''"
      and bad: "\<forall>b. rp \<noteq> HttpOk b"
  shows "success env \<Longrightarrow> current_page (meta (payload env)) = Some p \<Longrightarrow>
    total_pages (meta (payload env)) = Some n \<Longrightarrow> p + length ls < n \<Longrightarrow>
    (\<forall>i < length ls. \<forall>r. listing_endpoint w (length (requests w) + i) r = HttpOk (ls ! i)) \<Longrightarrow>
    (\<forall>r. listing_endpoint w (length (requests w) + length ls) r = rp) \<Longrightarrow>
    \<exists>rs w'.
       getOrderPages M c env marketId st w = (end_handler rp, w')
     \<and> events w' = events w @ map Sent rs
     \<and> length rs = Suc (length ls)
     \<and> map url rs =
         map (\<lambda>k. getFullUrl c (orders_path marketId k)) [Suc p..<Suc (Suc (p + length ls))]"
proof (induction ls arbitrary: env p w)
  case Nil
  let ?rq = "getOrdersRaw_request M c marketId (Suc p) w"
  let ?w2 = "after_request ?rq w"
  from Nil.prems(4) have lt: "p < n" by simp
  have np: "next_page (filterByState st env) (current_page (meta (payload env))) = Some (Suc p)"
    by (rule next_page_some [OF Nil.prems(1) Nil.prems(2) Nil.prems(3) lt])
  have "listing_endpoint w (length (requests w)) ?rq = rp"
    using Nil.prems(6) by simp
  then have raw: "getOrdersRaw M c marketId (Suc p) w = (end_handler rp, ?w2)"
    using sec by (simp add: getOrdersRaw_run)
  have run: "getOrderPages M c env marketId st w = (end_handler rp, ?w2)"
    using np raw end_handler_not_ok [OF bad] by (rule getOrderPages_fail)
  have ev: "events ?w2 = events w @ map Sent [?rq]" by simp
  have urls: "map url [?rq] =
      map (\<lambda>k. getFullUrl c (orders_path marketId k)) [Suc p..<Suc (Suc (p + length []))]"
    by simp
  from run ev urls show ?case
    by (intro exI [of _ "[?rq]"] exI [of _ ?w2]) simp
next
  case (Cons l ls)
  let ?rq = "getOrdersRaw_request M c marketId (Suc p) w"
  let ?w2 = "after_request ?rq w"
  let ?env2 = "append_page (filterByState st env) (responseHandler_success l) (Suc p)"
  from Cons.prems(4) have lt: "p < n" by simp
  have np: "next_page (filterByState st env) (current_page (meta (payload env))) = Some (Suc p)"
    by (rule next_page_some [OF Cons.prems(1) Cons.prems(2) Cons.prems(3) lt])
  have "listing_endpoint w (length (requests w) + 0) ?rq = HttpOk ((l # ls) ! 0)"
    using Cons.prems(5) by (metis length_greater_0_conv list.distinct(1))
  then have raw: "getOrdersRaw M c marketId (Suc p) w =
      (CallbackResult (responseHandler_success l), ?w2)"
    using sec by (simp add: getOrdersRaw_ok)
  have step: "getOrderPages M c env marketId st w = getOrderPages M c ?env2 marketId st ?w2"
    using np raw by (rule getOrderPages_step)
  have mid: "meta (payload (filterByState st env)) = meta (payload env)"
    by (rule filterByState_meta_before_last [OF Cons.prems(2) Cons.prems(3) lt])
  have e1: "success ?env2" using Cons.prems(1) by simp
  have e2: "current_page (meta (payload ?env2)) = Some (Suc p)" by simp
  have e3: "total_pages (meta (payload ?env2)) = Some n"
    using Cons.prems(3) mid by simp
  have e4: "Suc p + length ls < n" using Cons.prems(4) by simp
  have e5: "\<forall>i < length ls. \<forall>r.
      listing_endpoint ?w2 (length (requests ?w2) + i) r = HttpOk (ls ! i)"
  proof (intro allI impI)
    fix i r
    assume "i < length ls"
    then have "Suc i < length (l # ls)" by simp
    with Cons.prems(5)
    have "listing_endpoint w (length (requests w) + Suc i) r = HttpOk ((l # ls) ! Suc i)"
      by blast
    then show "listing_endpoint ?w2 (length (requests ?w2) + i) r = HttpOk (ls ! i)"
      by simp
  qed
  have e6: "\<forall>r. listing_endpoint ?w2 (length (requests ?w2) + length ls) r = rp"
    using Cons.prems(6) by simp
  from Cons.IH [OF e1 e2 e3 e4 e5 e6]
  obtain rs w' where
        run: "getOrderPages M c ?env2 marketId st ?w2 = (end_handler rp, w')"
    and ev: "events w' = events ?w2 @ map Sent rs"
    and len: "length rs = Suc (length ls)"
    and urls: "map url rs =
         map (\<lambda>k. getFullUrl c (orders_path marketId k))
           [Suc (Suc p)..<Suc (Suc (Suc p + length ls))]"
    by blast
  have bound: "Suc (Suc (p + length (l # ls))) = Suc (Suc (Suc p + length ls))"
    by simp
  have "Suc p < Suc (Suc (Suc p + length ls))"
    by simp
  then have upt: "[Suc p..<Suc (Suc (p + length (l # ls)))] =
      Suc p # [Suc (Suc p)..<Suc (Suc (Suc p + length ls))]"
    unfolding bound by (rule upt_conv_Cons)
  have ev': "events w' = events w @ map Sent (?rq # rs)"
    using ev by simp
  have len': "length (?rq # rs) = Suc (length (l # ls))"
    using len by simp
  have urls': "map url (?rq # rs) =
      map (\<lambda>k. getFullUrl c (orders_path marketId k)) [Suc p..<Suc (Suc (p + length (l # ls)))]"
    using urls by (simp only: upt) simp
  from step run ev' len' urls' show ?case
    by (intro exI [of _ "?rq # rs"] exI [of _ w']) simp
qed

text \<open>An error response to any page fetch: the whole operation ends with that error and a
  null result.\<close>

lemma getOrderPages_error_at_any_page:
  assumes "secret c \<noteq> ''''"
      and "success env"
      and "current_page (meta (payload env)) = Some p"
      and "total_pages (meta (payload env)) = Some n"
      and "p + length ls < n"
      and "\<forall>i < length ls. \<forall>r.
             listing_endpoint w (length (requests w) + i) r = HttpOk (ls ! i)"
      and "\<forall>r. listing_endpoint w (length (requests w) + length ls) r = HttpError e"
  shows "\<exists>rs w'.
       getOrderPages M c env marketId st w = (CallbackError (responseHandler_errorSet e), w')
     \<and> events w' = events w @ map Sent rs
     \<and> length rs = Suc (length ls)
     \<and> map url rs =
         map (\<lambda>k. getFullUrl c (orders_path marketId k)) [Suc p..<Suc (Suc (p + length ls))]"
proof -
  have bad: "\<forall>b. HttpError e \<noteq> HttpOk b" by simp
  have h: "end_handler (HttpError e :: listing reply) = CallbackError (responseHandler_errorSet e)"
    by (simp add: end_handler_def)
  from getOrderPages_stops_at_first_failure [OF assms(1) bad assms(2-7), of M marketId st]
  show ?thesis by (simp only: h)
qed

text \<open>A page fetch that gets no response at all: the handler of the fetch throws, and
  neither callback is called.\<close>

lemma getOrderPages_no_response_at_any_page:
  assumes "secret c \<noteq> ''''"
      and "success env"
      and "current_page (meta (payload env)) = Some p"
      and "total_pages (meta (payload env)) = Some n"
      and "p + length ls < n"
      and "\<forall>i < length ls. \<forall>r.
             listing_endpoint w (length (requests w) + i) r = HttpOk (ls ! i)"
      and "\<forall>r. listing_endpoint w (length (requests w) + length ls) r = NoResponse"
  shows "\<exists>rs w'.
       getOrderPages M c env marketId st w = (Thrown ''TypeError'', w')
     \<and> events w' = events w @ map Sent rs
     \<and> length rs = Suc (length ls)
     \<and> map url rs =
         map (\<lambda>k. getFullUrl c (orders_path marketId k)) [Suc p..<Suc (Suc (p + length ls))]"
proof -
  have bad: "\<forall>b. NoResponse \<noteq> HttpOk b" by simp
  have h: "end_handler (NoResponse :: listing reply) = Thrown ''TypeError''"
    by (simp add: end_handler_def)
  from getOrderPages_stops_at_first_failure [OF assms(1) bad assms(2-7), of M marketId st]
  show ?thesis by (simp only: h)
qed

subsection \<open>At the concrete exchange\<close>

lemma dropped_world_simps:
  "listing_endpoint dropped_world 0 r = HttpOk (hd demo_pages)"
  "listing_endpoint dropped_world (Suc k) r = NoResponse"
  "events dropped_world = []"
  "requests dropped_world = []"
  by (simp_all add: dropped_world_def demo_world_def requests_def)

lemma failing_world_simps:
  "listing_endpoint failing_world 0 r = HttpOk (demo_pages ! 0)"
  "listing_endpoint failing_world (Suc 0) r = HttpOk (demo_pages ! 1)"
  "listing_endpoint failing_world (Suc (Suc k)) r =
     HttpError \<lparr>declared_kind = Some ''server_error'', detail = Null\<rparr>"
  "events failing_world = []"
  "requests failing_world = []"
  by (simp_all add: failing_world_def demo_world_def requests_def)

lemma first_page_facts:
  "hd demo_pages = demo_pages ! 0"
  "success (responseHandler_success (hd demo_pages))"
  "current_page (meta (payload (responseHandler_success (hd demo_pages)))) = Some 1"
  "total_pages (meta (payload (responseHandler_success (hd demo_pages)))) = Some 3"
  by (simp_all add: responseHandler_success_def demo_pages_def)

lemma demo_page_urls:
  "getFullUrl demo_client (orders_path ''btc-clp'' 0) =
     ''https://surbtc.com/api/v1/markets/btc-clp/orders''"
  "getFullUrl demo_client (orders_path ''btc-clp'' (Suc (Suc 0))) =
     ''https://surbtc.com/api/v1/markets/btc-clp/orders?page=2''"
  "getFullUrl demo_client (orders_path ''btc-clp'' (Suc (Suc (Suc 0)))) =
     ''https://surbtc.com/api/v1/markets/btc-clp/orders?page=3''"
  by (simp_all add: getFullUrl_def orders_path_def demo_client_simps string_of_nat.simps)

text \<open>An error response to the fetch of the third of three pages: the listing ends with that
  error after three requests, and the orders of the first two pages are not returned.\<close>

lemma getOrders_error_on_third_page:
  "fst (getOrders demo_modules demo_client ''btc-clp'' failing_world)
     = CallbackError \<lparr>success = False, error_type = Some ''server_error'', payload = Null\<rparr>
   \<and> map url (requests (snd (getOrders demo_modules demo_client ''btc-clp'' failing_world)))
     = [''https://surbtc.com/api/v1/markets/btc-clp/orders'',
        ''https://surbtc.com/api/v1/markets/btc-clp/orders?page=2'',
        ''https://surbtc.com/api/v1/markets/btc-clp/orders?page=3'']"
proof -
  let ?rq0 = "getOrdersRaw_request demo_modules demo_client ''btc-clp'' 0 failing_world"
  let ?w1 = "after_request ?rq0 failing_world"
  let ?env = "responseHandler_success (hd demo_pages)"
  let ?e = "\<lparr>declared_kind = Some ''server_error'', detail = Null\<rparr>"
  have sec: "secret demo_client \<noteq> ''''" by (simp add: demo_client_simps)
  have raw: "getOrdersRaw demo_modules demo_client ''btc-clp'' 0 failing_world
      = (CallbackResult ?env, ?w1)"
    using sec by (simp add: getOrdersRaw_ok failing_world_simps first_page_facts(1))
  have start: "getOrders demo_modules demo_client ''btc-clp'' failing_world =
      getOrderPages demo_modules demo_client ?env ''btc-clp'' None ?w1"
    by (simp add: getOrders_def raw pollOrders_def)
  have more: "1 + length [demo_pages ! 1] < (3::nat)" by simp
  have ok: "\<forall>i < length [demo_pages ! 1]. \<forall>r.
      listing_endpoint ?w1 (length (requests ?w1) + i) r = HttpOk ([demo_pages ! 1] ! i)"
    by (simp add: failing_world_simps)
  have bad: "\<forall>r. listing_endpoint ?w1 (length (requests ?w1) + length [demo_pages ! 1]) r
      = HttpError ?e"
    by (simp add: failing_world_simps)
  from getOrderPages_error_at_any_page
         [OF sec first_page_facts(2) first_page_facts(3) first_page_facts(4) more ok bad,
          of demo_modules "''btc-clp''" None]
  obtain rs w' where
        run: "getOrderPages demo_modules demo_client ?env ''btc-clp'' None ?w1
                = (CallbackError (responseHandler_errorSet ?e), w')"
    and ev: "events w' = events ?w1 @ map Sent rs"
    and urls: "map url rs =
         map (\<lambda>k. getFullUrl demo_client (orders_path ''btc-clp'' k))
           [Suc 1..<Suc (Suc (1 + length [demo_pages ! 1]))]"
    by blast
  have rq: "requests w' = ?rq0 # rs"
    using requests_events_append [OF ev] by (simp add: failing_world_simps)
  have u: "map url rs =
      [''https://surbtc.com/api/v1/markets/btc-clp/orders?page=2'',
       ''https://surbtc.com/api/v1/markets/btc-clp/orders?page=3'']"
    using urls by (simp add: upt_conv_Cons demo_page_urls)
  have res: "fst (getOrders demo_modules demo_client ''btc-clp'' failing_world)
      = CallbackError \<lparr>success = False, error_type = Some ''server_error'', payload = Null\<rparr>"
    by (simp add: start run responseHandler_errorSet_def)
  have w': "snd (getOrders demo_modules demo_client ''btc-clp'' failing_world) = w'"
    by (simp add: start run)
  from res show ?thesis
    by (simp add: w' rq u demo_page_urls)
qed

text \<open>
  Claim C5. The pager is a total function; it returns what it has accumulated as soon as the
  page number is not below \<^verbatim>\<open>total_pages\<close>, and it ends with the error and a
  null result, sending nothing more, when any page fetch is answered with an error
  response. A page fetch that fails without a response is not reported this way: at the
  listing of three pages whose second fetch gets no response, the handler of that fetch
  throws while it reads \<^verbatim>\<open>error.response.error\<close>, and the listing ends in that
  exception after two requests instead of calling back with the error.
\<close>

theorem getOrders_page_fetch_without_response:
  "fst (getOrders demo_modules demo_client ''btc-clp'' dropped_world) = Thrown ''TypeError''
   \<and> map url (requests (snd (getOrders demo_modules demo_client ''btc-clp'' dropped_world)))
     = [''https://surbtc.com/api/v1/markets/btc-clp/orders'',
        ''https://surbtc.com/api/v1/markets/btc-clp/orders?page=2'']"
proof -
  let ?rq0 = "getOrdersRaw_request demo_modules demo_client ''btc-clp'' 0 dropped_world"
  let ?w1 = "after_request ?rq0 dropped_world"
  let ?env = "responseHandler_success (hd demo_pages)"
  have sec: "secret demo_client \<noteq> ''''" by (simp add: demo_client_simps)
  have raw: "getOrdersRaw demo_modules demo_client ''btc-clp'' 0 dropped_world
      = (CallbackResult ?env, ?w1)"
    using sec by (simp add: getOrdersRaw_ok dropped_world_simps)
  have start: "getOrders demo_modules demo_client ''btc-clp'' dropped_world =
      getOrderPages demo_modules demo_client ?env ''btc-clp'' None ?w1"
    by (simp add: getOrders_def raw pollOrders_def)
  have more: "1 + length ([] :: listing list) < (3::nat)" by simp
  have ok: "\<forall>i < length ([] :: listing list). \<forall>r.
      listing_endpoint ?w1 (length (requests ?w1) + i) r = HttpOk ([] ! i)"
    by simp
  have bad: "\<forall>r. listing_endpoint ?w1 (length (requests ?w1) + length ([] :: listing list)) r
      = NoResponse"
    by (simp add: dropped_world_simps)
  from getOrderPages_no_response_at_any_page
         [OF sec first_page_facts(2) first_page_facts(3) first_page_facts(4) more ok bad,
          of demo_modules "''btc-clp''" None]
  obtain rs w' where
        run: "getOrderPages demo_modules demo_client ?env ''btc-clp'' None ?w1
                = (Thrown ''TypeError'', w')"
    and ev: "events w' = events ?w1 @ map Sent rs"
    and urls: "map url rs =
         map (\<lambda>k. getFullUrl demo_client (orders_path ''btc-clp'' k))
           [Suc 1..<Suc (Suc (1 + length ([] :: listing list)))]"
    by blast
  have rq: "requests w' = ?rq0 # rs"
    using requests_events_append [OF ev] by (simp add: dropped_world_simps)
  have u: "map url rs = [''https://surbtc.com/api/v1/markets/btc-clp/orders?page=2'']"
    using urls by (simp add: upt_conv_Cons demo_page_urls)
  have res: "fst (getOrders demo_modules demo_client ''btc-clp'' dropped_world)
      = Thrown ''TypeError''"
    by (simp add: start run)
  have w': "snd (getOrders demo_modules demo_client ''btc-clp'' dropped_world) = w'"
    by (simp add: start run)
  from res show ?thesis
    by (simp add: w' rq u demo_page_urls)
qed

end
